theory Spec2Isabelle
  imports Main "HOL-Library.Word"
begin

section \<open>The selection graph\<close>

text \<open>
  The instruction selector of the WebAssembly target
  (\<open>WebAssemblyISelDAGToDAG.cpp\<close>) rewrites a graph of \<open>SDNode\<close>s. The
  classes of the graph are declared in headers that are not among the
  sources; the model has of them what the selector reads and writes. A node
  is referred to by its address (\<open>SDNode *\<close>); here an address is a natural
  number. An \<open>SDValue\<close> is a node together with the number of one of its
  results. Debug locations (\<open>SDLoc\<close>) are left out.
\<close>

type_synonym NodeRef = nat

type_synonym SDValue = "NodeRef \<times> nat"

datatype MVT = i32 | i64 | f32 | f64 | Other | Glue

text \<open>
  Opcodes: the generic ones of namespace \<open>ISD\<close> that \<open>Select\<close> mentions (every
  other generic opcode is \<open>ISD_other\<close>), and the machine opcodes of namespace
  \<open>WebAssembly\<close> that it emits. \<open>isMachineOpcode\<close> tells the two apart.
\<close>

datatype ISD_NodeType =
    ISD_ATOMIC_FENCE
  | ISD_GlobalTLSAddress
  | ISD_INTRINSIC_WO_CHAIN
  | ISD_INTRINSIC_W_CHAIN
  | ISD_Constant
  | ISD_TargetConstant
  | ISD_TargetExternalSymbol
  | ISD_TargetGlobalAddress
  | ISD_other nat

datatype WebAssembly_Opcode =
    WebAssembly_COMPILER_FENCE
  | WebAssembly_ATOMIC_FENCE
  | WebAssembly_GLOBAL_GET_I32
  | WebAssembly_CONST_I32
  | WebAssembly_ADD_I32
  | WebAssembly_other nat

datatype Opcode = Generic ISD_NodeType | Machine WebAssembly_Opcode

datatype ThreadLocalMode =
    NotThreadLocal
  | GeneralDynamicTLSModel
  | LocalDynamicTLSModel
  | InitialExecTLSModel
  | LocalExecTLSModel

record GlobalValue =
  getName :: string
  getThreadLocalMode :: ThreadLocalMode

text \<open>
  \<open>SDNode\<close> and the fields of its subclasses that the selector reads:
  \<open>getZExtValue\<close> of a \<open>ConstantSDNode\<close>, \<open>getGlobal\<close> and \<open>getOffset\<close> of
  a \<open>GlobalAddressSDNode\<close>, \<open>getSymbol\<close> of an \<open>ExternalSymbolSDNode\<close>. Which
  subclass a node belongs to is decided by its opcode (\<open>classof\<close>).
\<close>

record SDNode =
  getOpcode :: Opcode
  OperandList :: "SDValue list"
  ValueList :: "MVT list"
  NodeId :: int
  getZExtValue :: "64 word"
  getGlobal :: GlobalValue
  getOffset :: int
  getTargetFlags :: nat
  getSymbol :: string

text \<open>\<open>SDNode::isMachineOpcode\<close>: the node is machine-level already.\<close>

definition isMachineOpcode :: "SDNode \<Rightarrow> bool" where
  "isMachineOpcode Node = (case getOpcode Node of Machine _ \<Rightarrow> True | Generic _ \<Rightarrow> False)"

text \<open>\<open>ConstantSDNode::classof\<close>, the test that a \<open>cast\<close> to \<open>ConstantSDNode\<close> asserts.\<close>

definition isa_ConstantSDNode :: "SDNode \<Rightarrow> bool" where
  "isa_ConstantSDNode Node =
     (getOpcode Node = Generic ISD_Constant \<or> getOpcode Node = Generic ISD_TargetConstant)"

text \<open>
  \<open>SDNode::getOperand\<close> asserts that the node has an operand of that number;
  \<open>None\<close> is the failed assertion.
\<close>

definition getOperand :: "SDNode \<Rightarrow> nat \<Rightarrow> SDValue option" where
  "getOperand Node Num =
     (if Num < length (OperandList Node) then Some (OperandList Node ! Num) else None)"

text \<open>
  The graph: \<open>AllNodes\<close>, the list of the nodes that are alive, each under its
  address.
\<close>

record SelectionDAG =
  AllNodes :: "(NodeRef \<times> SDNode) list"

definition getNode :: "SelectionDAG \<Rightarrow> NodeRef \<Rightarrow> SDNode option" where
  "getNode DAG N = map_of (AllNodes DAG) N"

section \<open>Creating, replacing and removing nodes\<close>

text \<open>
  \<open>Select\<close> builds and rewrites the graph through \<open>SelectionDAG\<close> and through
  \<open>ReplaceNode\<close> of its base class. Neither is among the sources; this
  section models them from the spec: the data-flow graph model "provides
  node creation", the selection context has "a cursor for generating fresh
  nodes", and the rewriter "substitutes a finalized replacement for a node,
  redirecting every recorded user to the new result(s), and removing from
  the graph any node that, after the substitution, has no remaining users
  (transitive dead-node elimination)".
\<close>

text \<open>
  Modelled from the spec: the cursor for generating fresh nodes. The next
  address is above every address in use.
\<close>

fun NextRef :: "(NodeRef \<times> SDNode) list \<Rightarrow> NodeRef" where
  "NextRef [] = 0"
| "NextRef ((N, Node) # Ns) = max (Suc N) (NextRef Ns)"

text \<open>
  Modelled from the spec: node creation. A new node has the opcode, the
  result types and the operands it is created with, no node id yet (\<open>-1\<close>)
  and an empty payload.
\<close>

definition newSDNode :: "Opcode \<Rightarrow> MVT list \<Rightarrow> SDValue list \<Rightarrow> SDNode" where
  "newSDNode Opc VTs Ops =
     \<lparr>getOpcode = Opc, OperandList = Ops, ValueList = VTs, NodeId = - 1,
      getZExtValue = 0,
      getGlobal = \<lparr>getName = [], getThreadLocalMode = NotThreadLocal\<rparr>,
      getOffset = 0, getTargetFlags = 0, getSymbol = []\<rparr>"

text \<open>
  Modelled from the spec: node creation. The new node goes to the end of
  \<open>AllNodes\<close>, under the next address, which is returned.
\<close>

definition InsertNode :: "SDNode \<Rightarrow> SelectionDAG \<Rightarrow> NodeRef \<times> SelectionDAG" where
  "InsertNode Node DAG =
     (let N = NextRef (AllNodes DAG)
      in (N, DAG\<lparr>AllNodes := AllNodes DAG @ [(N, Node)]\<rparr>))"

text \<open>
  Modelled from the spec: \<open>SelectionDAG::getMachineNode\<close>, node creation for
  a machine opcode with the given result types and operands.
\<close>

definition getMachineNode ::
  "WebAssembly_Opcode \<Rightarrow> MVT list \<Rightarrow> SDValue list \<Rightarrow> SelectionDAG \<Rightarrow> NodeRef \<times> SelectionDAG" where
  "getMachineNode Opc VTs Ops DAG = InsertNode (newSDNode (Machine Opc) VTs Ops) DAG"

text \<open>
  Modelled from the spec: \<open>SelectionDAG::getTargetConstant\<close>, node creation
  for a target constant of the given value and type.
\<close>

definition getTargetConstant :: "64 word \<Rightarrow> MVT \<Rightarrow> SelectionDAG \<Rightarrow> NodeRef \<times> SelectionDAG" where
  "getTargetConstant Val VT DAG =
     InsertNode ((newSDNode (Generic ISD_TargetConstant) [VT] [])\<lparr>getZExtValue := Val\<rparr>) DAG"

text \<open>
  Modelled from the spec: \<open>SelectionDAG::getTargetExternalSymbol\<close>, node
  creation for the symbol of the given name and type.
\<close>

definition getTargetExternalSymbol :: "string \<Rightarrow> MVT \<Rightarrow> SelectionDAG \<Rightarrow> NodeRef \<times> SelectionDAG" where
  "getTargetExternalSymbol Sym VT DAG =
     InsertNode ((newSDNode (Generic ISD_TargetExternalSymbol) [VT] [])\<lparr>getSymbol := Sym\<rparr>) DAG"

text \<open>
  Modelled from the spec: \<open>SelectionDAG::getTargetGlobalAddress\<close>, node
  creation for the address of a global at an offset, with target flags.
\<close>

definition getTargetGlobalAddress ::
  "GlobalValue \<Rightarrow> MVT \<Rightarrow> int \<Rightarrow> nat \<Rightarrow> SelectionDAG \<Rightarrow> NodeRef \<times> SelectionDAG" where
  "getTargetGlobalAddress GV VT Offs TargetFlags DAG =
     InsertNode ((newSDNode (Generic ISD_TargetGlobalAddress) [VT] [])
                   \<lparr>getGlobal := GV, getOffset := Offs, getTargetFlags := TargetFlags\<rparr>) DAG"

text \<open>
  Modelled from the spec: redirecting a use. A use of result \<open>i\<close> of \<open>From\<close>
  becomes a use of result \<open>i\<close> of \<open>To\<close>; any other use stays.
\<close>

definition replaceUse :: "NodeRef \<Rightarrow> NodeRef \<Rightarrow> SDValue \<Rightarrow> SDValue" where
  "replaceUse From To V = (if fst V = From then (To, snd V) else V)"

text \<open>Modelled from the spec: redirecting the uses in the operands of one node.\<close>

definition replaceUses :: "NodeRef \<Rightarrow> NodeRef \<Rightarrow> SDNode \<Rightarrow> SDNode" where
  "replaceUses From To User =
     User\<lparr>OperandList := map (replaceUse From To) (OperandList User)\<rparr>"

text \<open>
  Modelled from the spec: \<open>SelectionDAG::ReplaceAllUsesWith\<close>, "redirecting
  every recorded user to the new result(s)". The users of a node are the
  nodes that have it as an operand.
\<close>

definition ReplaceAllUsesWith :: "NodeRef \<Rightarrow> NodeRef \<Rightarrow> SelectionDAG \<Rightarrow> SelectionDAG" where
  "ReplaceAllUsesWith From To DAG =
     DAG\<lparr>AllNodes := map (\<lambda>(U, User). (U, replaceUses From To User)) (AllNodes DAG)\<rparr>"

text \<open>Modelled from the spec: a node "has no remaining users".\<close>

definition use_empty :: "SelectionDAG \<Rightarrow> NodeRef \<Rightarrow> bool" where
  "use_empty DAG N =
     (\<forall>(U, User) \<in> set (AllNodes DAG). \<forall>V \<in> set (OperandList User). fst V \<noteq> N)"

text \<open>Modelled from the spec: "removing from the graph" one node.\<close>

definition DeleteNode :: "NodeRef \<Rightarrow> SelectionDAG \<Rightarrow> SelectionDAG" where
  "DeleteNode N DAG = DAG\<lparr>AllNodes := filter (\<lambda>(M, Node). M \<noteq> N) (AllNodes DAG)\<rparr>"

text \<open>
  Modelled from the spec: "transitive dead-node elimination", over a list of
  candidates. A candidate that is no longer in the graph, or still has a
  user, is passed over; otherwise it is deleted, and those of its operands
  that are left without a user become candidates. Each deletion makes the
  graph smaller, so the elimination ends.
\<close>

function RemoveDeadNodes :: "NodeRef list \<Rightarrow> SelectionDAG \<Rightarrow> SelectionDAG" where
  "RemoveDeadNodes [] DAG = DAG"
| "RemoveDeadNodes (N # DeadNodes) DAG =
     (case getNode DAG N of
        None \<Rightarrow> RemoveDeadNodes DeadNodes DAG
      | Some Node \<Rightarrow>
          if \<not> use_empty DAG N then RemoveDeadNodes DeadNodes DAG
          else let DAG' = DeleteNode N DAG
               in RemoveDeadNodes
                    (filter (use_empty DAG') (map fst (OperandList Node)) @ DeadNodes) DAG')"
  by pat_completeness auto
termination
proof (relation "measures [\<lambda>(Ns, DAG). length (AllNodes DAG), \<lambda>(Ns, DAG). length Ns]")
  fix N :: NodeRef and DeadNodes :: "NodeRef list" and DAG Node DAG'
  assume present: "getNode DAG N = Some Node" and del: "DAG' = DeleteNode N DAG"
  from present have "(N, Node) \<in> set (AllNodes DAG)"
    by (simp add: getNode_def map_of_SomeD)
  then have "length (filter (\<lambda>(M, Node). M \<noteq> N) (AllNodes DAG)) < length (AllNodes DAG)"
    by (rule length_filter_less) simp
  with del
  show "((filter (use_empty DAG') (map fst (OperandList Node)) @ DeadNodes, DAG'),
         N # DeadNodes, DAG)
        \<in> measures [\<lambda>(Ns, DAG). length (AllNodes DAG), \<lambda>(Ns, DAG). length Ns]"
    by (simp add: DeleteNode_def)
qed auto

text \<open>
  Modelled from the spec: \<open>SelectionDAG::RemoveDeadNode\<close>, dead-node
  elimination that starts from one node.
\<close>

definition RemoveDeadNode :: "NodeRef \<Rightarrow> SelectionDAG \<Rightarrow> SelectionDAG" where
  "RemoveDeadNode N DAG = RemoveDeadNodes [N] DAG"

text \<open>
  Modelled from the spec: \<open>ReplaceNode\<close>, the rewriter. It redirects the
  users of \<open>F\<close> to \<open>T\<close>, then removes \<open>F\<close> and what dies with it.
\<close>

definition ReplaceNode :: "NodeRef \<Rightarrow> NodeRef \<Rightarrow> SelectionDAG \<Rightarrow> SelectionDAG" where
  "ReplaceNode F T DAG = RemoveDeadNode F (ReplaceAllUsesWith F T DAG)"

text \<open>\<open>SDNode::setNodeId\<close>, on the node at address \<open>N\<close>.\<close>

definition setNodeId :: "NodeRef \<Rightarrow> int \<Rightarrow> SelectionDAG \<Rightarrow> SelectionDAG" where
  "setNodeId N NewId DAG =
     DAG\<lparr>AllNodes :=
           map (\<lambda>(M, Node). (M, if M = N then Node\<lparr>NodeId := NewId\<rparr> else Node))
               (AllNodes DAG)\<rparr>"

section \<open>The target and the ways selection can stop\<close>

text \<open>
  What \<open>Select\<close> asks of \<open>WebAssemblySubtarget\<close>: the feature flags and
  \<open>getTargetTriple().isOSEmscripten()\<close>.
\<close>

record WebAssemblySubtarget =
  hasAtomics :: bool
  hasBulkMemory :: bool
  hasAddr64 :: bool
  isOSEmscripten :: bool

text \<open>
  The numbers of the three intrinsics \<open>Select\<close> handles. The enumeration
  \<open>Intrinsic::ID\<close> is generated; its values are a parameter.
\<close>

record Intrinsic =
  wasm_tls_size :: "32 word"
  wasm_tls_align :: "32 word"
  wasm_tls_base :: "32 word"

text \<open>
  \<open>SyncScope::SingleThread\<close> and \<open>SyncScope::System\<close>, the two
  synchronization scopes LLVM predefines, with LLVM's values.
\<close>

definition SyncScope_SingleThread :: "64 word" where
  "SyncScope_SingleThread = 0"

definition SyncScope_System :: "64 word" where
  "SyncScope_System = 1"

text \<open>
  \<open>report_fatal_error\<close> ends the compilation with its message.
  \<open>llvm_unreachable\<close> and a failed \<open>assert\<close> (also the one inside \<open>cast\<close>
  and \<open>getOperand\<close>) end it too, in a build with assertions, which is the
  build modelled. \<open>invalid_node\<close> stands for an address that is not a node of
  the graph, which the C++ cannot hold. A run of the selector yields
  \<open>Inr ()\<close> when it returns and \<open>Inl\<close> of the error when it stops, beside the
  graph as it is at that moment.
\<close>

datatype error =
    report_fatal_error string
  | llvm_unreachable string
  | assertion_failure string
  | invalid_node NodeRef

type_synonym outcome = "(error + unit) \<times> SelectionDAG"

definition getConstantOperand :: "SelectionDAG \<Rightarrow> SDNode \<Rightarrow> nat \<Rightarrow> error + 64 word" where
  \<comment> \<open>\<open>cast<ConstantSDNode>(Node->getOperand(Num))->getZExtValue()\<close>\<close>
  "getConstantOperand DAG Node Num =
     (case getOperand Node Num of
        None \<Rightarrow> Inl (assertion_failure ''Invalid child # of SDNode!'')
      | Some V \<Rightarrow>
          (case getNode DAG (fst V) of
             None \<Rightarrow> Inl (invalid_node (fst V))
           | Some C \<Rightarrow>
               if isa_ConstantSDNode C then Inr (getZExtValue C)
               else Inl (assertion_failure ''cast<Ty>() argument of incompatible type!'')))"

section \<open>Select\<close>

text \<open>
  \<open>SelectCode\<close>, the matcher generated from the target description
  (\<open>WebAssemblyGenDAGISel.inc\<close>), is a parameter: \<open>Select\<close> hands it the
  nodes it does not lower itself. \<open>PtrVT\<close> is
  \<open>TLI->getPointerTy(CurDAG->getDataLayout())\<close>.

  The case \<open>ISD::ATOMIC_FENCE\<close> of the switch.
\<close>

definition Select_ATOMIC_FENCE ::
  "(NodeRef \<Rightarrow> SelectionDAG \<Rightarrow> outcome) \<Rightarrow> WebAssemblySubtarget \<Rightarrow>
   NodeRef \<Rightarrow> SDNode \<Rightarrow> SelectionDAG \<Rightarrow> outcome" where
  "Select_ATOMIC_FENCE SelectCode ST N Node DAG =
     (if \<not> hasAtomics ST then SelectCode N DAG
      else case getConstantOperand DAG Node 2 of
        Inl e \<Rightarrow> (Inl e, DAG)
      | Inr SyncScopeID \<Rightarrow>
          if SyncScopeID = SyncScope_SingleThread then
            (case getOperand Node 0 of
               None \<Rightarrow> (Inl (assertion_failure ''Invalid child # of SDNode!''), DAG)
             | Some InChain \<Rightarrow>
                 (let (Fence, DAG1) =
                        getMachineNode WebAssembly_COMPILER_FENCE [Other] [InChain] DAG
                  in (Inr (), RemoveDeadNode N (ReplaceNode N Fence DAG1))))
          else if SyncScopeID = SyncScope_System then
            (case getOperand Node 0 of
               None \<Rightarrow> (Inl (assertion_failure ''Invalid child # of SDNode!''), DAG)
             | Some InChain \<Rightarrow>
                 (let (Order, DAG1) = getTargetConstant 0 i32 DAG;
                      (Fence, DAG2) =
                        getMachineNode WebAssembly_ATOMIC_FENCE [Other]
                          [(Order, 0), InChain] DAG1
                  in (Inr (), RemoveDeadNode N (ReplaceNode N Fence DAG2))))
          else (Inl (llvm_unreachable ''Unknown scope!''), DAG))"

text \<open>
  The case \<open>ISD::GlobalTLSAddress\<close>. The \<open>cast\<close> to \<open>GlobalAddressSDNode\<close>
  cannot fail: its \<open>classof\<close> accepts this opcode.
\<close>

definition Select_GlobalTLSAddress ::
  "WebAssemblySubtarget \<Rightarrow> MVT \<Rightarrow> NodeRef \<Rightarrow> SDNode \<Rightarrow> SelectionDAG \<Rightarrow> outcome" where
  "Select_GlobalTLSAddress ST PtrVT N GA DAG =
     (if \<not> hasBulkMemory ST then
        (Inl (report_fatal_error ''cannot use thread-local storage without bulk memory''), DAG)
      else if getThreadLocalMode (getGlobal GA) \<noteq> LocalExecTLSModel \<and> \<not> isOSEmscripten ST then
        (Inl (report_fatal_error
                (''only -ftls-model=local-exec is supported for now on non-Emscripten OSes: variable ''
                 @ getName (getGlobal GA))), DAG)
      else if PtrVT \<noteq> i32 then
        (Inl (assertion_failure ''only wasm32 is supported for now''), DAG)
      else
        (let (TLSBaseSym, DAG1) = getTargetExternalSymbol ''__tls_base'' PtrVT DAG;
             (TLSOffsetSym, DAG2) =
               getTargetGlobalAddress (getGlobal GA) PtrVT (getOffset GA) 0 DAG1;
             (TLSBase, DAG3) =
               getMachineNode WebAssembly_GLOBAL_GET_I32 [i32] [(TLSBaseSym, 0)] DAG2;
             (TLSOffset, DAG4) =
               getMachineNode WebAssembly_CONST_I32 [i32] [(TLSOffsetSym, 0)] DAG3;
             (TLSAddress, DAG5) =
               getMachineNode WebAssembly_ADD_I32 [i32] [(TLSBase, 0), (TLSOffset, 0)] DAG4
         in (Inr (), ReplaceNode N TLSAddress DAG5)))"

text \<open>
  The cases \<open>ISD::INTRINSIC_WO_CHAIN\<close> and \<open>ISD::INTRINSIC_W_CHAIN\<close>.
  \<open>IntNo\<close> is an \<open>unsigned\<close>: the constant's 64 bits are cut to 32.
\<close>

definition Select_INTRINSIC_WO_CHAIN ::
  "(NodeRef \<Rightarrow> SelectionDAG \<Rightarrow> outcome) \<Rightarrow> Intrinsic \<Rightarrow> MVT \<Rightarrow>
   NodeRef \<Rightarrow> SDNode \<Rightarrow> SelectionDAG \<Rightarrow> outcome" where
  "Select_INTRINSIC_WO_CHAIN SelectCode Intr PtrVT N Node DAG =
     (case getConstantOperand DAG Node 0 of
        Inl e \<Rightarrow> (Inl e, DAG)
      | Inr C \<Rightarrow>
          (let IntNo = (ucast C :: 32 word) in
           if IntNo = wasm_tls_size Intr then
             (if PtrVT \<noteq> i32 then
                (Inl (assertion_failure ''only wasm32 is supported for now''), DAG)
              else
                (let (Sym, DAG1) = getTargetExternalSymbol ''__tls_size'' i32 DAG;
                     (TLSSize, DAG2) =
                       getMachineNode WebAssembly_GLOBAL_GET_I32 [PtrVT] [(Sym, 0)] DAG1
                 in (Inr (), ReplaceNode N TLSSize DAG2)))
           else if IntNo = wasm_tls_align Intr then
             (if PtrVT \<noteq> i32 then
                (Inl (assertion_failure ''only wasm32 is supported for now''), DAG)
              else
                (let (Sym, DAG1) = getTargetExternalSymbol ''__tls_align'' i32 DAG;
                     (TLSAlign, DAG2) =
                       getMachineNode WebAssembly_GLOBAL_GET_I32 [PtrVT] [(Sym, 0)] DAG1
                 in (Inr (), ReplaceNode N TLSAlign DAG2)))
           else SelectCode N DAG))"

definition Select_INTRINSIC_W_CHAIN ::
  "(NodeRef \<Rightarrow> SelectionDAG \<Rightarrow> outcome) \<Rightarrow> Intrinsic \<Rightarrow> MVT \<Rightarrow>
   NodeRef \<Rightarrow> SDNode \<Rightarrow> SelectionDAG \<Rightarrow> outcome" where
  "Select_INTRINSIC_W_CHAIN SelectCode Intr PtrVT N Node DAG =
     (case getConstantOperand DAG Node 1 of
        Inl e \<Rightarrow> (Inl e, DAG)
      | Inr C \<Rightarrow>
          (let IntNo = (ucast C :: 32 word) in
           if IntNo = wasm_tls_base Intr then
             (if PtrVT \<noteq> i32 then
                (Inl (assertion_failure ''only wasm32 is supported for now''), DAG)
              else
                (case getOperand Node 0 of
                   None \<Rightarrow> (Inl (assertion_failure ''Invalid child # of SDNode!''), DAG)
                 | Some InChain \<Rightarrow>
                     (let (Sym, DAG1) = getTargetExternalSymbol ''__tls_base'' PtrVT DAG;
                          (TLSBase, DAG2) =
                            getMachineNode WebAssembly_GLOBAL_GET_I32 [i32, Other]
                              [(Sym, 0), InChain] DAG1
                      in (Inr (), ReplaceNode N TLSBase DAG2))))
           else SelectCode N DAG))"

text \<open>
  \<open>Select\<close>: a node that has a machine opcode gets the node id \<open>-1\<close> and is
  left alone; a node of one of the four opcodes above goes to its case;
  every other node goes to \<open>SelectCode\<close>.
\<close>

definition Select ::
  "(NodeRef \<Rightarrow> SelectionDAG \<Rightarrow> outcome) \<Rightarrow> Intrinsic \<Rightarrow> WebAssemblySubtarget \<Rightarrow> MVT \<Rightarrow>
   NodeRef \<Rightarrow> SelectionDAG \<Rightarrow> outcome" where
  "Select SelectCode Intr ST PtrVT N DAG =
     (case getNode DAG N of
        None \<Rightarrow> (Inl (invalid_node N), DAG)
      | Some Node \<Rightarrow>
          if isMachineOpcode Node then (Inr (), setNodeId N (- 1) DAG)
          else
            (case getOpcode Node of
               Generic ISD_ATOMIC_FENCE \<Rightarrow> Select_ATOMIC_FENCE SelectCode ST N Node DAG
             | Generic ISD_GlobalTLSAddress \<Rightarrow> Select_GlobalTLSAddress ST PtrVT N Node DAG
             | Generic ISD_INTRINSIC_WO_CHAIN \<Rightarrow>
                 Select_INTRINSIC_WO_CHAIN SelectCode Intr PtrVT N Node DAG
             | Generic ISD_INTRINSIC_W_CHAIN \<Rightarrow>
                 Select_INTRINSIC_W_CHAIN SelectCode Intr PtrVT N Node DAG
             | _ \<Rightarrow> SelectCode N DAG))"

section \<open>Binding an inline-assembly memory operand\<close>

text \<open>
  \<open>InlineAsm::Constraint_i\<close> and \<open>InlineAsm::Constraint_m\<close> are the two
  constraint codes the function names; every other code is
  \<open>Constraint_other\<close>.
\<close>

datatype ConstraintCode = Constraint_i | Constraint_m | Constraint_other nat

text \<open>
  \<open>SelectInlineAsmMemoryOperand\<close> returns \<open>false\<close> when it has bound the
  operand and \<open>true\<close> when it has not; \<open>OutOps\<close> is passed by reference, so the
  model returns it beside the flag.
\<close>

fun SelectInlineAsmMemoryOperand ::
  "SDValue \<Rightarrow> ConstraintCode \<Rightarrow> SDValue list \<Rightarrow> bool \<times> SDValue list" where
  "SelectInlineAsmMemoryOperand Op Constraint_i OutOps = (False, OutOps @ [Op])"
| "SelectInlineAsmMemoryOperand Op Constraint_m OutOps = (False, OutOps @ [Op])"
| "SelectInlineAsmMemoryOperand Op (Constraint_other c) OutOps = (True, OutOps)"

section \<open>The pass and the driver\<close>

text \<open>
  \<open>runOnMachineFunction\<close> refuses wasm64 before any node is selected, so
  \<open>Select\<close> only ever runs with 32-bit pointers. The base class's
  \<open>SelectionDAGISel::runOnMachineFunction\<close> is a parameter.
\<close>

definition runOnMachineFunction ::
  "(SelectionDAG \<Rightarrow> outcome) \<Rightarrow> WebAssemblySubtarget \<Rightarrow> SelectionDAG \<Rightarrow> outcome" where
  "runOnMachineFunction Base ST DAG =
     (if hasAddr64 ST then
        (Inl (report_fatal_error ''64-bit WebAssembly (wasm64) is not currently supported''), DAG)
      else Base DAG)"

text \<open>
  Modelled from the spec: the selection driver (the base class's
  \<open>DoInstructionSelection\<close>) is not among the sources. The spec: "the driver
  visits DFG nodes in dependency order; for each unfinalized node it first
  offers it to the custom-rule set, and if none claims it, to the pattern
  matcher", and "the driver performs no retry or fallback once a fatal
  condition is raised". The order of the visit is an argument. A node that
  has left the graph by the time its turn comes is passed over; every other
  node is handed to the selector \<open>Sel\<close>, whose first step is the test for a
  node that is already machine-level; the walk ends at the first error.
\<close>

fun DoInstructionSelection ::
  "(NodeRef \<Rightarrow> SelectionDAG \<Rightarrow> outcome) \<Rightarrow> NodeRef list \<Rightarrow> SelectionDAG \<Rightarrow> outcome" where
  "DoInstructionSelection Sel [] DAG = (Inr (), DAG)"
| "DoInstructionSelection Sel (N # Ns) DAG =
     (case getNode DAG N of
        None \<Rightarrow> DoInstructionSelection Sel Ns DAG
      | Some Node \<Rightarrow>
          (case Sel N DAG of
             (Inl e, DAG') \<Rightarrow> (Inl e, DAG')
           | (Inr u, DAG') \<Rightarrow> DoInstructionSelection Sel Ns DAG'))"

section \<open>The vocabulary of the theorems\<close>

text \<open>
  The two invariants the graph comes with: every operand refers to a node of
  the graph, and the graph is acyclic, which a rank that falls from each
  node to its operands expresses.
\<close>

definition wellFormed :: "(NodeRef \<Rightarrow> nat) \<Rightarrow> SelectionDAG \<Rightarrow> bool" where
  "wellFormed rank DAG =
     (\<forall>(U, User) \<in> set (AllNodes DAG). \<forall>V \<in> set (OperandList User).
        fst V \<in> fst ` set (AllNodes DAG) \<and> rank (fst V) < rank U)"

text \<open>
  \<open>replaced DAG N New T DAG'\<close>: in \<open>DAG'\<close> the node \<open>N\<close> of \<open>DAG\<close> has been
  replaced by the nodes \<open>New\<close>, of which \<open>T\<close> takes its place. That is: \<open>N\<close>
  is gone; the nodes of \<open>New\<close> are new and are in \<open>DAG'\<close> as listed; every
  user of \<open>N\<close> is still there and uses \<open>T\<close> where it used \<open>N\<close>, result for
  result; and every other node of \<open>DAG'\<close> is a node of \<open>DAG\<close>, the same but
  for that redirection.
\<close>

definition replaced ::
  "SelectionDAG \<Rightarrow> NodeRef \<Rightarrow> (NodeRef \<times> SDNode) list \<Rightarrow> NodeRef \<Rightarrow> SelectionDAG \<Rightarrow> bool" where
  "replaced DAG N New T DAG' =
     (getNode DAG' N = None \<and>
      (\<forall>(K, Nd) \<in> set New. getNode DAG K = None \<and> getNode DAG' K = Some Nd) \<and>
      (\<forall>U User. getNode DAG U = Some User \<and> N \<in> fst ` set (OperandList User) \<longrightarrow>
         getNode DAG' U = Some (replaceUses N T User)) \<and>
      (\<forall>M Nd. getNode DAG' M = Some Nd \<and> M \<notin> fst ` set New \<longrightarrow>
         (\<exists>Old. getNode DAG M = Some Old \<and> Nd = replaceUses N T Old)))"

text \<open>
  The read of a named global, as \<open>Select\<close> builds it at the end of \<open>DAG\<close>:
  the symbol, and a \<open>GLOBAL_GET_I32\<close> whose first operand is the symbol.
\<close>

definition globalGet ::
  "SelectionDAG \<Rightarrow> string \<Rightarrow> MVT list \<Rightarrow> SDValue list \<Rightarrow> (NodeRef \<times> SDNode) list" where
  "globalGet DAG Sym VTs Chain =
     [(NextRef (AllNodes DAG),
       (newSDNode (Generic ISD_TargetExternalSymbol) [i32] [])\<lparr>getSymbol := Sym\<rparr>),
      (Suc (NextRef (AllNodes DAG)),
       newSDNode (Machine WebAssembly_GLOBAL_GET_I32) VTs ((NextRef (AllNodes DAG), 0) # Chain))]"

text \<open>
  The graph without the node ids, which are scratch space of the selector:
  the nodes in their order, each with its opcode, operands, result types and
  payload. And the graphs that are machine-level throughout.
\<close>

definition withoutNodeIds :: "SelectionDAG \<Rightarrow> (NodeRef \<times> SDNode) list" where
  "withoutNodeIds DAG = map (\<lambda>(M, Node). (M, Node\<lparr>NodeId := 0\<rparr>)) (AllNodes DAG)"

definition allMachine :: "SelectionDAG \<Rightarrow> bool" where
  "allMachine DAG = (\<forall>(M, Node) \<in> set (AllNodes DAG). isMachineOpcode Node)"

definition closedUnder :: "NodeRef set \<Rightarrow> SelectionDAG \<Rightarrow> bool" where
  "closedUnder S DAG =
     (\<forall>(M, Node) \<in> set (AllNodes DAG). M \<in> S \<longrightarrow> (\<forall>V \<in> set (OperandList Node). fst V \<in> S))"

section \<open>Sample inputs\<close>

text \<open>
  A matcher with no pattern at all, sample numbers for the intrinsics, and
  targets by their features.
\<close>

definition NoPatterns :: "NodeRef \<Rightarrow> SelectionDAG \<Rightarrow> outcome" where
  "NoPatterns N DAG = (Inl (report_fatal_error ''Cannot select''), DAG)"

definition IntrinsicNumbers :: Intrinsic where
  "IntrinsicNumbers = \<lparr>wasm_tls_size = 11, wasm_tls_align = 12, wasm_tls_base = 13\<rparr>"

definition Target :: "bool \<Rightarrow> bool \<Rightarrow> bool \<Rightarrow> WebAssemblySubtarget" where
  "Target Atomics BulkMemory Emscripten =
     \<lparr>hasAtomics = Atomics, hasBulkMemory = BulkMemory, hasAddr64 = False,
      isOSEmscripten = Emscripten\<rparr>"

text \<open>
  A fence (node 3) on the entry token (node 0), with its ordering (node 1)
  and its scope (node 2), and a node that consumes the fence's chain
  (node 4).
\<close>

definition FenceNode :: SDNode where
  "FenceNode = newSDNode (Generic ISD_ATOMIC_FENCE) [Other] [(0, 0), (1, 0), (2, 0)]"

definition FenceGraph :: "64 word \<Rightarrow> SelectionDAG" where
  "FenceGraph Scope =
     \<lparr>AllNodes =
        [(0, newSDNode (Generic (ISD_other 1)) [Other] []),
         (1, (newSDNode (Generic ISD_Constant) [i32] [])\<lparr>getZExtValue := 7\<rparr>),
         (2, (newSDNode (Generic ISD_Constant) [i32] [])\<lparr>getZExtValue := Scope\<rparr>),
         (3, FenceNode),
         (4, newSDNode (Generic (ISD_other 2)) [Other] [(3, 0)])]\<rparr>"

text \<open>
  The address of the thread-local variable \<open>x\<close>, at offset 8 (node 0), and a
  node that uses the address (node 1).
\<close>

definition TLSNode :: "ThreadLocalMode \<Rightarrow> SDNode" where
  "TLSNode Model =
     (newSDNode (Generic ISD_GlobalTLSAddress) [i32] [])
       \<lparr>getGlobal := \<lparr>getName = ''x'', getThreadLocalMode = Model\<rparr>, getOffset := 8\<rparr>"

definition TLSGraph :: "ThreadLocalMode \<Rightarrow> SelectionDAG" where
  "TLSGraph Model =
     \<lparr>AllNodes =
        [(0, TLSNode Model),
         (1, newSDNode (Generic (ISD_other 3)) [i32] [(0, 0)])]\<rparr>"

text \<open>
  An intrinsic without chain (node 1) with its number (node 0) and a user
  (node 2); and an intrinsic with chain (node 2) on the entry token
  (node 0), with its number (node 1) and a user of both its results
  (node 3).
\<close>

definition IntrinsicNode :: SDNode where
  "IntrinsicNode = newSDNode (Generic ISD_INTRINSIC_WO_CHAIN) [i32] [(0, 0)]"

definition IntrinsicGraph :: "64 word \<Rightarrow> SelectionDAG" where
  "IntrinsicGraph IntNo =
     \<lparr>AllNodes =
        [(0, (newSDNode (Generic ISD_TargetConstant) [i32] [])\<lparr>getZExtValue := IntNo\<rparr>),
         (1, IntrinsicNode),
         (2, newSDNode (Generic (ISD_other 3)) [i32] [(1, 0)])]\<rparr>"

definition ChainedIntrinsicNode :: SDNode where
  "ChainedIntrinsicNode =
     newSDNode (Generic ISD_INTRINSIC_W_CHAIN) [i32, Other] [(0, 0), (1, 0)]"

definition ChainedIntrinsicGraph :: "64 word \<Rightarrow> SelectionDAG" where
  "ChainedIntrinsicGraph IntNo =
     \<lparr>AllNodes =
        [(0, newSDNode (Generic (ISD_other 1)) [Other] []),
         (1, (newSDNode (Generic ISD_TargetConstant) [i32] [])\<lparr>getZExtValue := IntNo\<rparr>),
         (2, ChainedIntrinsicNode),
         (3, newSDNode (Generic (ISD_other 2)) [Other] [(2, 0), (2, 1)])]\<rparr>"

text \<open>A graph that selection has been through: a constant and an addition.\<close>

definition MachineGraph :: SelectionDAG where
  "MachineGraph =
     \<lparr>AllNodes =
        [(0, newSDNode (Machine WebAssembly_CONST_I32) [i32] []),
         (1, newSDNode (Machine WebAssembly_ADD_I32) [i32] [(0, 0), (0, 0)])]\<rparr>"

section \<open>Lemmas about the graph operations\<close>

lemma NextRef_greater: "(M, Node) \<in> set Ns \<Longrightarrow> M < NextRef Ns"
  by (induction Ns) auto

lemma NextRef_append: "NextRef (Ns @ Ms) = max (NextRef Ns) (NextRef Ms)"
  by (induction Ns) auto

lemma map_of_filter_keys:
  "map_of (filter (\<lambda>(M, Node). M \<notin> D) Ns) K = (if K \<in> D then None else map_of Ns K)"
  by (induction Ns) auto

lemma getNode_ReplaceAllUsesWith:
  "getNode (ReplaceAllUsesWith F T DAG) M = map_option (replaceUses F T) (getNode DAG M)"
  unfolding getNode_def ReplaceAllUsesWith_def
  by (induction "AllNodes DAG" arbitrary: DAG) (auto simp: map_of_map)

lemma filter_DeleteNode:
  "filter (\<lambda>(M, Node). M \<notin> D) (AllNodes (DeleteNode N DAG)) =
   filter (\<lambda>(M, Node). M \<notin> insert N D) (AllNodes DAG)"
  unfolding DeleteNode_def by (induction "AllNodes DAG") (auto intro: filter_cong)

lemma closedUnder_DeleteNode: "closedUnder S DAG \<Longrightarrow> closedUnder S (DeleteNode N DAG)"
  unfolding closedUnder_def DeleteNode_def by auto

lemma RemoveDeadNodes_filter:
  "closedUnder S DAG \<Longrightarrow> set Ns \<subseteq> S \<Longrightarrow>
   \<exists>D. D \<subseteq> S \<and>
       AllNodes (RemoveDeadNodes Ns DAG) = filter (\<lambda>(M, Node). M \<notin> D) (AllNodes DAG)"
proof (induction Ns DAG rule: RemoveDeadNodes.induct)
  case (1 DAG)
  have "AllNodes DAG = filter (\<lambda>(M, Node). M \<notin> {}) (AllNodes DAG)"
    by simp
  then show ?case by (intro exI [of _ "{}"]) simp
next
  case (2 N DeadNodes DAG)
  from "2.prems" have N: "N \<in> S" and rest: "set DeadNodes \<subseteq> S"
    by simp_all
  show ?case
  proof (cases "getNode DAG N")
    case None
    with "2.IH"(1) "2.prems"(1) rest show ?thesis by simp
  next
    case (Some Node)
    show ?thesis
    proof (cases "use_empty DAG N")
      case False
      with Some "2.IH"(2) "2.prems"(1) rest show ?thesis by simp
    next
      case True
      define DAG' where "DAG' = DeleteNode N DAG"
      define New where "New = filter (use_empty DAG') (map fst (OperandList Node))"
      from Some have "(N, Node) \<in> set (AllNodes DAG)"
        by (simp add: getNode_def map_of_SomeD)
      with "2.prems"(1) N have "fst ` set (OperandList Node) \<subseteq> S"
        unfolding closedUnder_def by fastforce
      then have "set (New @ DeadNodes) \<subseteq> S"
        using rest unfolding New_def by auto
      moreover have "closedUnder S DAG'"
        unfolding DAG'_def using "2.prems"(1) by (rule closedUnder_DeleteNode)
      ultimately obtain D where D: "D \<subseteq> S"
        and eq: "AllNodes (RemoveDeadNodes (New @ DeadNodes) DAG') =
                 filter (\<lambda>(M, Node). M \<notin> D) (AllNodes DAG')"
        using "2.IH"(3) [OF Some _ DAG'_def] True unfolding New_def by blast
      have "RemoveDeadNodes (N # DeadNodes) DAG = RemoveDeadNodes (New @ DeadNodes) DAG'"
        using Some True by (simp add: DAG'_def New_def Let_def)
      with eq have "AllNodes (RemoveDeadNodes (N # DeadNodes) DAG) =
                    filter (\<lambda>(M, Node). M \<notin> insert N D) (AllNodes DAG)"
        by (simp add: DAG'_def filter_DeleteNode)
      with D N show ?thesis
        by (intro exI [of _ "insert N D"]) simp
    qed
  qed
qed


lemma use_empty_ReplaceAllUsesWith: "T \<noteq> F \<Longrightarrow> use_empty (ReplaceAllUsesWith F T DAG) F"
  unfolding use_empty_def ReplaceAllUsesWith_def replaceUses_def replaceUse_def by auto

lemma RemoveDeadNode_absent: "getNode DAG N = None \<Longrightarrow> RemoveDeadNode N DAG = DAG"
  by (simp add: RemoveDeadNode_def)

lemma replaceUses_unused:
  "\<forall>V \<in> set (OperandList Node). fst V \<noteq> F \<Longrightarrow> replaceUses F T Node = Node"
  unfolding replaceUses_def replaceUse_def by (simp add: map_idI)

lemma ReplaceNode_filter:
  assumes wf: "wellFormed rank DAG0"
    and present: "getNode DAG0 N = Some Node"
    and app: "AllNodes DAG1 = AllNodes DAG0 @ New"
    and fresh: "\<forall>(K, Nd) \<in> set New. NextRef (AllNodes DAG0) \<le> K"
    and T: "NextRef (AllNodes DAG0) \<le> T"
  shows "\<exists>D. D \<subseteq> {M \<in> fst ` set (AllNodes DAG0). rank M \<le> rank N} \<and> N \<in> D \<and>
             AllNodes (ReplaceNode N T DAG1) =
               filter (\<lambda>(M, Node). M \<notin> D) (AllNodes (ReplaceAllUsesWith N T DAG1))"
proof -
  define S where "S = {M \<in> fst ` set (AllNodes DAG0). rank M \<le> rank N}"
  define DAG2 where "DAG2 = ReplaceAllUsesWith N T DAG1"
  from present have inN: "(N, Node) \<in> set (AllNodes DAG0)"
    by (simp add: getNode_def map_of_SomeD)
  then have NS: "N \<in> S"
    unfolding S_def by force
  from inN have "N < NextRef (AllNodes DAG0)"
    by (rule NextRef_greater)
  with T have TN: "T \<noteq> N" by simp
  have old: "M < NextRef (AllNodes DAG0)" if "M \<in> S" for M
    using that unfolding S_def by (auto dest: NextRef_greater)
  have closed: "closedUnder S DAG2"
    unfolding closedUnder_def
  proof (intro ballI, clarify)
    fix M Nd V r
    assume mem: "(M, Nd) \<in> set (AllNodes DAG2)" and MS: "M \<in> S"
      and V: "(V, r) \<in> set (OperandList Nd)"
    from mem obtain Nd0 where Nd0: "(M, Nd0) \<in> set (AllNodes DAG1)"
      and Nd: "Nd = replaceUses N T Nd0"
      unfolding DAG2_def ReplaceAllUsesWith_def by auto
    from old [OF MS] fresh have "(M, Nd0) \<notin> set New" by fastforce
    with Nd0 app have in0: "(M, Nd0) \<in> set (AllNodes DAG0)" by simp
    with wf have ops: "\<forall>W \<in> set (OperandList Nd0).
        fst W \<in> fst ` set (AllNodes DAG0) \<and> rank (fst W) < rank M"
      unfolding wellFormed_def by fastforce
    from MS have "rank M \<le> rank N" unfolding S_def by simp
    with ops have unused: "\<forall>W \<in> set (OperandList Nd0). fst W \<noteq> N" by fastforce
    then have "Nd = Nd0" using Nd by (simp add: replaceUses_unused)
    with V ops \<open>rank M \<le> rank N\<close> show "fst (V, r) \<in> S"
      unfolding S_def by fastforce
  qed
  have empty: "use_empty DAG2 N"
    unfolding DAG2_def using TN by (rule use_empty_ReplaceAllUsesWith)
  have "set [N] \<subseteq> S" using NS by simp
  have "getNode DAG1 N = Some Node"
    using present app by (simp add: getNode_def)
  then have Some: "getNode DAG2 N = Some (replaceUses N T Node)"
    by (simp add: DAG2_def getNode_ReplaceAllUsesWith)
  define Nd where "Nd = replaceUses N T Node"
  show ?thesis
  proof -
    define DAG3 where "DAG3 = DeleteNode N DAG2"
    define Ops where "Ops = filter (use_empty DAG3) (map fst (OperandList Nd))"
    from Some have "(N, Nd) \<in> set (AllNodes DAG2)"
      by (simp add: getNode_def map_of_SomeD Nd_def)
    with closed NS have sub: "set (Ops @ []) \<subseteq> S"
      unfolding closedUnder_def Ops_def by fastforce
    have c3: "closedUnder S DAG3"
      unfolding DAG3_def using closed by (rule closedUnder_DeleteNode)
    from RemoveDeadNodes_filter [OF c3 sub] obtain D where D: "D \<subseteq> S"
      and eq: "AllNodes (RemoveDeadNodes (Ops @ []) DAG3) =
               filter (\<lambda>(M, Node). M \<notin> D) (AllNodes DAG3)"
      by blast
    have "ReplaceNode N T DAG1 = RemoveDeadNodes (Ops @ []) DAG3"
      using Some empty
      by (simp add: ReplaceNode_def RemoveDeadNode_def DAG2_def [symmetric] DAG3_def Ops_def
            Nd_def Let_def)
    with eq have "AllNodes (ReplaceNode N T DAG1) =
                  filter (\<lambda>(M, Node). M \<notin> insert N D) (AllNodes DAG2)"
      by (simp add: DAG3_def filter_DeleteNode)
    with D NS show ?thesis
      unfolding S_def [symmetric] DAG2_def [symmetric]
      by (intro exI [of _ "insert N D"]) simp
  qed
qed

lemma getNode_fresh: "NextRef (AllNodes DAG) \<le> K \<Longrightarrow> getNode DAG K = None"
proof (rule ccontr)
  assume K: "NextRef (AllNodes DAG) \<le> K" and "getNode DAG K \<noteq> None"
  then obtain Nd where "(K, Nd) \<in> set (AllNodes DAG)"
    by (auto simp: getNode_def dest: map_of_SomeD)
  then have "K < NextRef (AllNodes DAG)" by (rule NextRef_greater)
  with K show False by simp
qed

lemma getNode_filter:
  "AllNodes DAG' = filter (\<lambda>(M, Node). M \<notin> D) (AllNodes DAG) \<Longrightarrow>
   getNode DAG' K = (if K \<in> D then None else getNode DAG K)"
  by (simp add: getNode_def map_of_filter_keys)

lemma ReplaceNode_replaced:
  assumes wf: "wellFormed rank DAG0"
    and present: "getNode DAG0 N = Some Node"
    and app: "AllNodes DAG1 = AllNodes DAG0 @ New"
    and fresh: "\<forall>(K, Nd) \<in> set New. NextRef (AllNodes DAG0) \<le> K"
    and dist: "distinct (map fst New)"
    and unused: "\<forall>(K, Nd) \<in> set New. \<forall>V \<in> set (OperandList Nd). fst V \<noteq> N"
    and T: "NextRef (AllNodes DAG0) \<le> T"
  shows "replaced DAG0 N New T (ReplaceNode N T DAG1)"
    and "RemoveDeadNode N (ReplaceNode N T DAG1) = ReplaceNode N T DAG1"
proof -
  define R where "R = ReplaceNode N T DAG1"
  from ReplaceNode_filter [OF wf present app fresh T]
  obtain D where D: "D \<subseteq> {M \<in> fst ` set (AllNodes DAG0). rank M \<le> rank N}"
    and ND: "N \<in> D"
    and eq: "AllNodes R = filter (\<lambda>(M, Node). M \<notin> D) (AllNodes (ReplaceAllUsesWith N T DAG1))"
    unfolding R_def by blast
  have look: "getNode R K = (if K \<in> D then None else map_option (replaceUses N T) (getNode DAG1 K))"
    for K
    using getNode_filter [OF eq] by (simp add: getNode_ReplaceAllUsesWith)
  have DAG1: "getNode DAG1 K = (case getNode DAG0 K of None \<Rightarrow> map_of New K | Some Nd \<Rightarrow> Some Nd)"
    for K
    using app by (simp add: getNode_def map_add_def)
  have gone: "getNode R N = None"
    using ND by (simp add: look)
  have new: "getNode DAG0 K = None \<and> getNode R K = Some Nd" if "(K, Nd) \<in> set New" for K Nd
  proof -
    from that fresh have K: "NextRef (AllNodes DAG0) \<le> K" by fastforce
    then have none: "getNode DAG0 K = None" by (rule getNode_fresh)
    then have "K \<notin> fst ` set (AllNodes DAG0)"
      by (simp add: getNode_def map_of_eq_None_iff)
    with D have KD: "K \<notin> D" by blast
    from that dist have "map_of New K = Some Nd" by simp
    with none have "getNode DAG1 K = Some Nd" by (simp add: DAG1)
    moreover from that unused have "replaceUses N T Nd = Nd"
      by (intro replaceUses_unused) fastforce
    ultimately show ?thesis using none KD by (simp add: look)
  qed
  have users: "getNode R U = Some (replaceUses N T User)"
    if U: "getNode DAG0 U = Some User" and use: "N \<in> fst ` set (OperandList User)" for U User
  proof -
    from U have "(U, User) \<in> set (AllNodes DAG0)"
      by (simp add: getNode_def map_of_SomeD)
    with wf use have "rank N < rank U"
      unfolding wellFormed_def by fastforce
    with D have "U \<notin> D" by auto
    with U show ?thesis by (simp add: look DAG1)
  qed
  have others: "\<exists>Old. getNode DAG0 M = Some Old \<and> Nd = replaceUses N T Old"
    if M: "getNode R M = Some Nd" and notnew: "M \<notin> fst ` set New" for M Nd
  proof -
    from notnew have "map_of New M = None"
      by (simp add: map_of_eq_None_iff)
    with M show ?thesis
      by (auto simp: look DAG1 split: if_splits option.splits)
  qed
  show "replaced DAG0 N New T (ReplaceNode N T DAG1)"
    unfolding replaced_def R_def [symmetric]
    using gone new users others by blast
  show "RemoveDeadNode N (ReplaceNode N T DAG1) = ReplaceNode N T DAG1"
    unfolding R_def [symmetric] using gone by (rule RemoveDeadNode_absent)
qed

lemma getConstantOperand_length:
  "getConstantOperand DAG Node Num = Inr C \<Longrightarrow> Num < length (OperandList Node)"
  by (auto simp: getConstantOperand_def getOperand_def split: option.splits if_splits)

lemma first_operand:
  assumes "Num < length (OperandList Node)"
  shows "getOperand Node 0 = Some (OperandList Node ! 0)"
    and "OperandList Node ! 0 \<in> set (OperandList Node)"
proof -
  from assms have pos: "0 < length (OperandList Node)"
    by (cases "OperandList Node") simp_all
  then show "getOperand Node 0 = Some (OperandList Node ! 0)"
    by (simp add: getOperand_def)
  from pos show "OperandList Node ! 0 \<in> set (OperandList Node)"
    by (rule nth_mem)
qed

lemma operand_not_self:
  assumes "wellFormed rank DAG" and "getNode DAG N = Some Node" and "V \<in> set (OperandList Node)"
  shows "fst V \<noteq> N"
proof -
  from assms(2) have "(N, Node) \<in> set (AllNodes DAG)"
    by (simp add: getNode_def map_of_SomeD)
  with assms(1,3) have "rank (fst V) < rank N"
    unfolding wellFormed_def by fastforce
  then show ?thesis by auto
qed

lemma present_less_NextRef: "getNode DAG N = Some Node \<Longrightarrow> N < NextRef (AllNodes DAG)"
  by (auto simp: getNode_def dest!: map_of_SomeD NextRef_greater)

section \<open>Lemmas about the sample inputs\<close>

lemma wellFormed_FenceGraph: "wellFormed (\<lambda>N. N) (FenceGraph Scope)"
  by (simp add: wellFormed_def FenceGraph_def FenceNode_def newSDNode_def)

lemma getNode_FenceGraph: "getNode (FenceGraph Scope) 3 = Some FenceNode"
  by (simp add: getNode_def FenceGraph_def)

lemma getOpcode_FenceNode: "getOpcode FenceNode = Generic ISD_ATOMIC_FENCE"
  by (simp add: FenceNode_def newSDNode_def)

lemma getConstantOperand_FenceGraph:
  "getConstantOperand (FenceGraph Scope) FenceNode 2 = Inr Scope"
  by (simp add: getConstantOperand_def getOperand_def FenceNode_def newSDNode_def getNode_def
        FenceGraph_def isa_ConstantSDNode_def)

lemma wellFormed_TLSGraph: "wellFormed (\<lambda>N. N) (TLSGraph Model)"
  by (simp add: wellFormed_def TLSGraph_def TLSNode_def newSDNode_def)

lemma getNode_TLSGraph: "getNode (TLSGraph Model) 0 = Some (TLSNode Model)"
  by (simp add: getNode_def TLSGraph_def)

lemma getOpcode_TLSNode: "getOpcode (TLSNode Model) = Generic ISD_GlobalTLSAddress"
  by (simp add: TLSNode_def newSDNode_def)

lemma getGlobal_TLSNode:
  "getGlobal (TLSNode Model) = \<lparr>getName = ''x'', getThreadLocalMode = Model\<rparr>"
  by (simp add: TLSNode_def newSDNode_def)

lemma wellFormed_IntrinsicGraph: "wellFormed (\<lambda>N. N) (IntrinsicGraph IntNo)"
  by (simp add: wellFormed_def IntrinsicGraph_def IntrinsicNode_def newSDNode_def)

lemma getNode_IntrinsicGraph: "getNode (IntrinsicGraph IntNo) 1 = Some IntrinsicNode"
  by (simp add: getNode_def IntrinsicGraph_def)

lemma getOpcode_IntrinsicNode: "getOpcode IntrinsicNode = Generic ISD_INTRINSIC_WO_CHAIN"
  by (simp add: IntrinsicNode_def newSDNode_def)

lemma getConstantOperand_IntrinsicGraph:
  "getConstantOperand (IntrinsicGraph IntNo) IntrinsicNode 0 = Inr IntNo"
  by (simp add: getConstantOperand_def getOperand_def IntrinsicNode_def newSDNode_def getNode_def
        IntrinsicGraph_def isa_ConstantSDNode_def)

lemma wellFormed_ChainedIntrinsicGraph: "wellFormed (\<lambda>N. N) (ChainedIntrinsicGraph IntNo)"
  by (simp add: wellFormed_def ChainedIntrinsicGraph_def ChainedIntrinsicNode_def newSDNode_def)

lemma getNode_ChainedIntrinsicGraph:
  "getNode (ChainedIntrinsicGraph IntNo) 2 = Some ChainedIntrinsicNode"
  by (simp add: getNode_def ChainedIntrinsicGraph_def)

lemma getOpcode_ChainedIntrinsicNode:
  "getOpcode ChainedIntrinsicNode = Generic ISD_INTRINSIC_W_CHAIN"
  by (simp add: ChainedIntrinsicNode_def newSDNode_def)

lemma getConstantOperand_ChainedIntrinsicGraph:
  "getConstantOperand (ChainedIntrinsicGraph IntNo) ChainedIntrinsicNode 1 = Inr IntNo"
  by (simp add: getConstantOperand_def getOperand_def ChainedIntrinsicNode_def newSDNode_def
        getNode_def ChainedIntrinsicGraph_def isa_ConstantSDNode_def)

lemma allMachine_MachineGraph: "allMachine MachineGraph"
  by (simp add: allMachine_def MachineGraph_def isMachineOpcode_def newSDNode_def)

lemma getNode_MachineGraph:
  "getNode MachineGraph 1 = Some (newSDNode (Machine WebAssembly_ADD_I32) [i32] [(0, 0), (0, 0)])"
  by (simp add: getNode_def MachineGraph_def)

lemma hasAtomics_Target: "hasAtomics (Target A B E) = A"
  and hasBulkMemory_Target: "hasBulkMemory (Target A B E) = B"
  and isOSEmscripten_Target: "isOSEmscripten (Target A B E) = E"
  by (simp_all add: Target_def)

section \<open>Sample runs\<close>

text \<open>
  The model runs. A single-thread fence becomes a barrier on the entry
  token, and the two constants of the fence, now unused, are removed; a
  system-wide fence becomes a hardware fence with the order 0; the address
  of the thread-local \<open>x\<close> becomes base plus offset.
\<close>

lemma Select_FenceGraph_SingleThread:
  "Select NoPatterns IntrinsicNumbers (Target True False False) i32 3
     (FenceGraph SyncScope_SingleThread) =
     (Inr (),
      \<lparr>AllNodes =
         [(0, newSDNode (Generic (ISD_other 1)) [Other] []),
          (4, newSDNode (Generic (ISD_other 2)) [Other] [(5, 0)]),
          (5, newSDNode (Machine WebAssembly_COMPILER_FENCE) [Other] [(0, 0)])]\<rparr>)"
  by (simp add: Select_def Select_ATOMIC_FENCE_def FenceGraph_def FenceNode_def Target_def
        getNode_def isMachineOpcode_def getConstantOperand_def getOperand_def
        isa_ConstantSDNode_def newSDNode_def SyncScope_SingleThread_def getMachineNode_def
        InsertNode_def RemoveDeadNode_def ReplaceNode_def ReplaceAllUsesWith_def replaceUses_def
        replaceUse_def use_empty_def DeleteNode_def Let_def)

lemma Select_FenceGraph_System:
  "Select NoPatterns IntrinsicNumbers (Target True False False) i32 3
     (FenceGraph SyncScope_System) =
     (Inr (),
      \<lparr>AllNodes =
         [(0, newSDNode (Generic (ISD_other 1)) [Other] []),
          (4, newSDNode (Generic (ISD_other 2)) [Other] [(6, 0)]),
          (5, (newSDNode (Generic ISD_TargetConstant) [i32] [])\<lparr>getZExtValue := 0\<rparr>),
          (6, newSDNode (Machine WebAssembly_ATOMIC_FENCE) [Other] [(5, 0), (0, 0)])]\<rparr>)"
  by (simp add: Select_def Select_ATOMIC_FENCE_def FenceGraph_def FenceNode_def Target_def
        getNode_def isMachineOpcode_def getConstantOperand_def getOperand_def
        isa_ConstantSDNode_def newSDNode_def SyncScope_SingleThread_def SyncScope_System_def
        getMachineNode_def getTargetConstant_def InsertNode_def RemoveDeadNode_def
        ReplaceNode_def ReplaceAllUsesWith_def replaceUses_def replaceUse_def use_empty_def
        DeleteNode_def Let_def)

lemma Select_TLSGraph_LocalExec:
  "Select NoPatterns IntrinsicNumbers (Target False True False) i32 0
     (TLSGraph LocalExecTLSModel) =
     (Inr (),
      \<lparr>AllNodes =
         [(1, newSDNode (Generic (ISD_other 3)) [i32] [(6, 0)]),
          (2, (newSDNode (Generic ISD_TargetExternalSymbol) [i32] [])
                \<lparr>getSymbol := ''__tls_base''\<rparr>),
          (3, (newSDNode (Generic ISD_TargetGlobalAddress) [i32] [])
                \<lparr>getGlobal := \<lparr>getName = ''x'', getThreadLocalMode = LocalExecTLSModel\<rparr>,
                   getOffset := 8, getTargetFlags := 0\<rparr>),
          (4, newSDNode (Machine WebAssembly_GLOBAL_GET_I32) [i32] [(2, 0)]),
          (5, newSDNode (Machine WebAssembly_CONST_I32) [i32] [(3, 0)]),
          (6, newSDNode (Machine WebAssembly_ADD_I32) [i32] [(4, 0), (5, 0)])]\<rparr>)"
  by (simp add: Select_def Select_GlobalTLSAddress_def TLSGraph_def TLSNode_def Target_def
        getNode_def isMachineOpcode_def newSDNode_def getMachineNode_def
        getTargetExternalSymbol_def getTargetGlobalAddress_def InsertNode_def RemoveDeadNode_def
        ReplaceNode_def ReplaceAllUsesWith_def replaceUses_def replaceUse_def use_empty_def
        DeleteNode_def Let_def)

section \<open>Atomic fences\<close>

text \<open>
  C1, as the code has it. For every atomic fence node with single-thread
  synchronization scope, on a target with atomics support, selection
  replaces the node with a single compiler barrier (\<open>COMPILER_FENCE\<close>, of
  result type \<open>Other\<close>) whose sole operand is the chain input of the fence:
  the barrier is the only node selection adds, so no hardware fence appears
  for the node; the fence is gone, and its users use the barrier instead.
\<close>

theorem Select_single_thread_fence:
  assumes wf: "wellFormed rank DAG"
    and present: "getNode DAG N = Some Node"
    and opc: "getOpcode Node = Generic ISD_ATOMIC_FENCE"
    and atomics: "hasAtomics ST"
    and scope: "getConstantOperand DAG Node 2 = Inr SyncScope_SingleThread"
  shows "\<exists>InChain DAG'.
           getOperand Node 0 = Some InChain \<and>
           Select SelectCode Intr ST PtrVT N DAG = (Inr (), DAG') \<and>
           replaced DAG N
             [(NextRef (AllNodes DAG),
               newSDNode (Machine WebAssembly_COMPILER_FENCE) [Other] [InChain])]
             (NextRef (AllNodes DAG)) DAG'"
proof -
  define Fence where "Fence = NextRef (AllNodes DAG)"
  define InChain where "InChain = OperandList Node ! 0"
  define New where
    "New = [(Fence, newSDNode (Machine WebAssembly_COMPILER_FENCE) [Other] [InChain])]"
  define DAG1 where "DAG1 = DAG\<lparr>AllNodes := AllNodes DAG @ New\<rparr>"
  from scope have len: "2 < length (OperandList Node)"
    by (rule getConstantOperand_length)
  then have chain: "getOperand Node 0 = Some InChain"
    unfolding InChain_def by (rule first_operand)
  from len have "InChain \<in> set (OperandList Node)"
    unfolding InChain_def by (rule first_operand)
  with wf present have "fst InChain \<noteq> N"
    by (rule operand_not_self)
  then have unused: "\<forall>(K, Nd) \<in> set New. \<forall>V \<in> set (OperandList Nd). fst V \<noteq> N"
    by (simp add: New_def newSDNode_def)
  have sel: "Select SelectCode Intr ST PtrVT N DAG =
               (Inr (), RemoveDeadNode N (ReplaceNode N Fence DAG1))"
    using present opc atomics scope chain
    by (simp add: Select_def isMachineOpcode_def Select_ATOMIC_FENCE_def getMachineNode_def
          InsertNode_def Let_def DAG1_def New_def Fence_def)
  have app: "AllNodes DAG1 = AllNodes DAG @ New"
    by (simp add: DAG1_def)
  have fresh: "\<forall>(K, Nd) \<in> set New. NextRef (AllNodes DAG) \<le> K"
    by (simp add: New_def Fence_def)
  have dist: "distinct (map fst New)"
    by (simp add: New_def)
  have T: "NextRef (AllNodes DAG) \<le> Fence"
    by (simp add: Fence_def)
  from ReplaceNode_replaced [OF wf present app fresh dist unused T] sel chain show ?thesis
    unfolding New_def Fence_def by simp
qed

theorem Select_single_thread_fence_witness:
  "wellFormed (\<lambda>N. N) (FenceGraph SyncScope_SingleThread) \<and>
   getNode (FenceGraph SyncScope_SingleThread) 3 = Some FenceNode \<and>
   getOpcode FenceNode = Generic ISD_ATOMIC_FENCE \<and>
   hasAtomics (Target True False False) \<and>
   getConstantOperand (FenceGraph SyncScope_SingleThread) FenceNode 2 =
     Inr SyncScope_SingleThread \<and>
   (\<exists>InChain DAG'.
      getOperand FenceNode 0 = Some InChain \<and>
      Select NoPatterns IntrinsicNumbers (Target True False False) i32 3
        (FenceGraph SyncScope_SingleThread) = (Inr (), DAG') \<and>
      replaced (FenceGraph SyncScope_SingleThread) 3
        [(NextRef (AllNodes (FenceGraph SyncScope_SingleThread)),
          newSDNode (Machine WebAssembly_COMPILER_FENCE) [Other] [InChain])]
        (NextRef (AllNodes (FenceGraph SyncScope_SingleThread))) DAG')"
proof -
  have atomics: "hasAtomics (Target True False False)"
    by (simp add: hasAtomics_Target)
  from Select_single_thread_fence
         [OF wellFormed_FenceGraph getNode_FenceGraph getOpcode_FenceNode atomics
             getConstantOperand_FenceGraph]
       wellFormed_FenceGraph getNode_FenceGraph getOpcode_FenceNode atomics
       getConstantOperand_FenceGraph
  show ?thesis by blast
qed

text \<open>
  Without atomics the same fence is not lowered by \<open>Select\<close>: the outcome is
  the matcher's, here that of the matcher without patterns, and no barrier
  has been built. So "on any target" does not hold.
\<close>

theorem Select_fence_needs_atomics:
  "wellFormed (\<lambda>N. N) (FenceGraph SyncScope_SingleThread) \<and>
   getNode (FenceGraph SyncScope_SingleThread) 3 = Some FenceNode \<and>
   getOpcode FenceNode = Generic ISD_ATOMIC_FENCE \<and>
   getConstantOperand (FenceGraph SyncScope_SingleThread) FenceNode 2 =
     Inr SyncScope_SingleThread \<and>
   \<not> hasAtomics (Target False False False) \<and>
   Select NoPatterns IntrinsicNumbers (Target False False False) i32 3
     (FenceGraph SyncScope_SingleThread) =
     (Inl (report_fatal_error ''Cannot select''), FenceGraph SyncScope_SingleThread) \<and>
   \<not> (\<exists>InChain DAG'.
        Select NoPatterns IntrinsicNumbers (Target False False False) i32 3
          (FenceGraph SyncScope_SingleThread) = (Inr (), DAG') \<and>
        replaced (FenceGraph SyncScope_SingleThread) 3
          [(NextRef (AllNodes (FenceGraph SyncScope_SingleThread)),
            newSDNode (Machine WebAssembly_COMPILER_FENCE) [Other] [InChain])]
          (NextRef (AllNodes (FenceGraph SyncScope_SingleThread))) DAG')"
  by (simp add: wellFormed_FenceGraph getNode_FenceGraph getOpcode_FenceNode
        getConstantOperand_FenceGraph hasAtomics_Target Select_def isMachineOpcode_def
        Select_ATOMIC_FENCE_def NoPatterns_def)

text \<open>
  C2. For every atomic fence node with system-wide synchronization scope,
  on a target with atomics support, selection replaces the node with
  exactly one hardware fence (\<open>ATOMIC_FENCE\<close>, of result type \<open>Other\<close>). Its
  first operand is a new target constant of value 0, the encoding of
  sequentially consistent; its second operand, the chain input, is the
  chain input of the original node. The constant and the fence are the only
  nodes selection adds; the original node is gone, and its users use the
  fence instead, so the fence sits in the chain where the node sat.
\<close>

theorem Select_system_fence:
  assumes wf: "wellFormed rank DAG"
    and present: "getNode DAG N = Some Node"
    and opc: "getOpcode Node = Generic ISD_ATOMIC_FENCE"
    and atomics: "hasAtomics ST"
    and scope: "getConstantOperand DAG Node 2 = Inr SyncScope_System"
  shows "\<exists>InChain DAG'.
           getOperand Node 0 = Some InChain \<and>
           Select SelectCode Intr ST PtrVT N DAG = (Inr (), DAG') \<and>
           replaced DAG N
             [(NextRef (AllNodes DAG),
               (newSDNode (Generic ISD_TargetConstant) [i32] [])\<lparr>getZExtValue := 0\<rparr>),
              (Suc (NextRef (AllNodes DAG)),
               newSDNode (Machine WebAssembly_ATOMIC_FENCE) [Other]
                 [(NextRef (AllNodes DAG), 0), InChain])]
             (Suc (NextRef (AllNodes DAG))) DAG'"
proof -
  define Order where "Order = NextRef (AllNodes DAG)"
  define InChain where "InChain = OperandList Node ! 0"
  define New where
    "New = [(Order, (newSDNode (Generic ISD_TargetConstant) [i32] [])\<lparr>getZExtValue := 0\<rparr>),
            (Suc Order, newSDNode (Machine WebAssembly_ATOMIC_FENCE) [Other] [(Order, 0), InChain])]"
  define DAG2 where "DAG2 = DAG\<lparr>AllNodes := AllNodes DAG @ New\<rparr>"
  from scope have len: "2 < length (OperandList Node)"
    by (rule getConstantOperand_length)
  then have chain: "getOperand Node 0 = Some InChain"
    unfolding InChain_def by (rule first_operand)
  from len have "InChain \<in> set (OperandList Node)"
    unfolding InChain_def by (rule first_operand)
  with wf present have "fst InChain \<noteq> N"
    by (rule operand_not_self)
  moreover from present have "Order \<noteq> N"
    unfolding Order_def by (auto dest: present_less_NextRef)
  ultimately have unused: "\<forall>(K, Nd) \<in> set New. \<forall>V \<in> set (OperandList Nd). fst V \<noteq> N"
    by (simp add: New_def newSDNode_def)
  have single: "SyncScope_System \<noteq> SyncScope_SingleThread"
    by (simp add: SyncScope_System_def SyncScope_SingleThread_def)
  have sel: "Select SelectCode Intr ST PtrVT N DAG =
               (Inr (), RemoveDeadNode N (ReplaceNode N (Suc Order) DAG2))"
    using present opc atomics scope chain single
    by (simp add: Select_def isMachineOpcode_def Select_ATOMIC_FENCE_def getMachineNode_def
          getTargetConstant_def InsertNode_def Let_def DAG2_def New_def Order_def NextRef_append)
  have app: "AllNodes DAG2 = AllNodes DAG @ New"
    by (simp add: DAG2_def)
  have fresh: "\<forall>(K, Nd) \<in> set New. NextRef (AllNodes DAG) \<le> K"
    by (simp add: New_def Order_def)
  have dist: "distinct (map fst New)"
    by (simp add: New_def)
  have T: "NextRef (AllNodes DAG) \<le> Suc Order"
    by (simp add: Order_def)
  from ReplaceNode_replaced [OF wf present app fresh dist unused T] sel chain show ?thesis
    unfolding New_def Order_def by simp
qed

theorem Select_system_fence_witness:
  "wellFormed (\<lambda>N. N) (FenceGraph SyncScope_System) \<and>
   getNode (FenceGraph SyncScope_System) 3 = Some FenceNode \<and>
   getOpcode FenceNode = Generic ISD_ATOMIC_FENCE \<and>
   hasAtomics (Target True False False) \<and>
   getConstantOperand (FenceGraph SyncScope_System) FenceNode 2 = Inr SyncScope_System \<and>
   (\<exists>InChain DAG'.
      getOperand FenceNode 0 = Some InChain \<and>
      Select NoPatterns IntrinsicNumbers (Target True False False) i32 3
        (FenceGraph SyncScope_System) = (Inr (), DAG') \<and>
      replaced (FenceGraph SyncScope_System) 3
        [(NextRef (AllNodes (FenceGraph SyncScope_System)),
          (newSDNode (Generic ISD_TargetConstant) [i32] [])\<lparr>getZExtValue := 0\<rparr>),
         (Suc (NextRef (AllNodes (FenceGraph SyncScope_System))),
          newSDNode (Machine WebAssembly_ATOMIC_FENCE) [Other]
            [(NextRef (AllNodes (FenceGraph SyncScope_System)), 0), InChain])]
        (Suc (NextRef (AllNodes (FenceGraph SyncScope_System)))) DAG')"
proof -
  have atomics: "hasAtomics (Target True False False)"
    by (simp add: hasAtomics_Target)
  from Select_system_fence
         [OF wellFormed_FenceGraph getNode_FenceGraph getOpcode_FenceNode atomics
             getConstantOperand_FenceGraph]
       wellFormed_FenceGraph getNode_FenceGraph getOpcode_FenceNode atomics
       getConstantOperand_FenceGraph
  show ?thesis by blast
qed

text \<open>
  C8. For every atomic fence node, on a target with atomics support, whose
  scope operand is neither the single-thread nor the system-wide value,
  selection takes the \<open>default\<close> branch of the switch on the scope: it stops
  at \<open>llvm_unreachable\<close> with the message "Unknown scope!" and has built
  nothing; the graph at that moment is the graph it was given.
\<close>

theorem Select_fence_unknown_scope:
  assumes "getNode DAG N = Some Node"
    and "getOpcode Node = Generic ISD_ATOMIC_FENCE"
    and "hasAtomics ST"
    and "getConstantOperand DAG Node 2 = Inr SyncScopeID"
    and "SyncScopeID \<noteq> SyncScope_SingleThread"
    and "SyncScopeID \<noteq> SyncScope_System"
  shows "Select SelectCode Intr ST PtrVT N DAG = (Inl (llvm_unreachable ''Unknown scope!''), DAG)"
  using assms by (simp add: Select_def isMachineOpcode_def Select_ATOMIC_FENCE_def)

theorem Select_fence_unknown_scope_witness:
  "getNode (FenceGraph 2) 3 = Some FenceNode \<and>
   getOpcode FenceNode = Generic ISD_ATOMIC_FENCE \<and>
   hasAtomics (Target True False False) \<and>
   getConstantOperand (FenceGraph 2) FenceNode 2 = Inr 2 \<and>
   2 \<noteq> SyncScope_SingleThread \<and>
   2 \<noteq> SyncScope_System \<and>
   Select NoPatterns IntrinsicNumbers (Target True False False) i32 3 (FenceGraph 2) =
     (Inl (llvm_unreachable ''Unknown scope!''), FenceGraph 2)"
proof -
  have atomics: "hasAtomics (Target True False False)"
    by (simp add: hasAtomics_Target)
  have single: "2 \<noteq> SyncScope_SingleThread" and system: "2 \<noteq> SyncScope_System"
    by (simp_all add: SyncScope_SingleThread_def SyncScope_System_def)
  from Select_fence_unknown_scope
         [OF getNode_FenceGraph getOpcode_FenceNode atomics getConstantOperand_FenceGraph
             single system]
       getNode_FenceGraph getOpcode_FenceNode atomics getConstantOperand_FenceGraph single system
  show ?thesis by blast
qed

text \<open>
  C10. For every atomic fence node on a target without atomics support, the
  case of the switch does nothing but leave the switch: the node goes to
  the generated matcher, on the graph as it was given, and the outcome of
  selection is the matcher's outcome. \<open>Select\<close> itself builds neither a
  barrier nor a hardware fence and raises no error.
\<close>

theorem Select_fence_without_atomics:
  assumes "getNode DAG N = Some Node"
    and "getOpcode Node = Generic ISD_ATOMIC_FENCE"
    and "\<not> hasAtomics ST"
  shows "Select SelectCode Intr ST PtrVT N DAG = SelectCode N DAG"
  using assms by (simp add: Select_def isMachineOpcode_def Select_ATOMIC_FENCE_def)

theorem Select_fence_without_atomics_witness:
  "getNode (FenceGraph SyncScope_System) 3 = Some FenceNode \<and>
   getOpcode FenceNode = Generic ISD_ATOMIC_FENCE \<and>
   \<not> hasAtomics (Target False True False) \<and>
   Select NoPatterns IntrinsicNumbers (Target False True False) i32 3
       (FenceGraph SyncScope_System) =
     NoPatterns 3 (FenceGraph SyncScope_System)"
proof -
  have atomics: "\<not> hasAtomics (Target False True False)"
    by (simp add: hasAtomics_Target)
  from Select_fence_without_atomics [OF getNode_FenceGraph getOpcode_FenceNode atomics]
       getNode_FenceGraph getOpcode_FenceNode atomics
  show ?thesis by blast
qed

section \<open>Thread-local storage\<close>

lemma Select_globalGet:
  assumes wf: "wellFormed rank DAG"
    and present: "getNode DAG N = Some Node"
    and chain: "\<forall>V \<in> set Chain. fst V \<noteq> N"
    and sel: "Result =
       (Inr (), ReplaceNode N (Suc (NextRef (AllNodes DAG)))
                  (DAG\<lparr>AllNodes := AllNodes DAG @ globalGet DAG Sym VTs Chain\<rparr>))"
  shows "\<exists>DAG'. Result = (Inr (), DAG') \<and>
           replaced DAG N (globalGet DAG Sym VTs Chain) (Suc (NextRef (AllNodes DAG))) DAG'"
proof -
  define New where "New = globalGet DAG Sym VTs Chain"
  define DAG2 where "DAG2 = DAG\<lparr>AllNodes := AllNodes DAG @ New\<rparr>"
  from present have "N < NextRef (AllNodes DAG)"
    by (rule present_less_NextRef)
  with chain have unused: "\<forall>(K, Nd) \<in> set New. \<forall>V \<in> set (OperandList Nd). fst V \<noteq> N"
    by (simp add: New_def globalGet_def newSDNode_def)
  have app: "AllNodes DAG2 = AllNodes DAG @ New"
    by (simp add: DAG2_def)
  have fresh: "\<forall>(K, Nd) \<in> set New. NextRef (AllNodes DAG) \<le> K"
    by (simp add: New_def globalGet_def)
  have dist: "distinct (map fst New)"
    by (simp add: New_def globalGet_def)
  have T: "NextRef (AllNodes DAG) \<le> Suc (NextRef (AllNodes DAG))"
    by simp
  from ReplaceNode_replaced(1) [OF wf present app fresh dist unused T] sel show ?thesis
    unfolding DAG2_def New_def by simp
qed

lemma Select_wasm_tls_size:
  assumes wf: "wellFormed rank DAG"
    and present: "getNode DAG N = Some Node"
    and ptr: "PtrVT = i32"
    and opc: "getOpcode Node = Generic ISD_INTRINSIC_WO_CHAIN"
    and no: "getConstantOperand DAG Node 0 = Inr C"
    and size: "ucast C = wasm_tls_size Intr"
  shows "\<exists>DAG'. Select SelectCode Intr ST PtrVT N DAG = (Inr (), DAG') \<and>
           replaced DAG N (globalGet DAG ''__tls_size'' [i32] [])
             (Suc (NextRef (AllNodes DAG))) DAG'"
  using present ptr opc no size
  by (intro Select_globalGet [OF wf present])
     (simp_all add: Select_def isMachineOpcode_def Select_INTRINSIC_WO_CHAIN_def
        getMachineNode_def getTargetExternalSymbol_def InsertNode_def Let_def NextRef_append
        globalGet_def)

lemma Select_wasm_tls_align:
  assumes wf: "wellFormed rank DAG"
    and present: "getNode DAG N = Some Node"
    and ptr: "PtrVT = i32"
    and opc: "getOpcode Node = Generic ISD_INTRINSIC_WO_CHAIN"
    and no: "getConstantOperand DAG Node 0 = Inr C"
    and align: "ucast C = wasm_tls_align Intr"
    and distinct: "wasm_tls_align Intr \<noteq> wasm_tls_size Intr"
  shows "\<exists>DAG'. Select SelectCode Intr ST PtrVT N DAG = (Inr (), DAG') \<and>
           replaced DAG N (globalGet DAG ''__tls_align'' [i32] [])
             (Suc (NextRef (AllNodes DAG))) DAG'"
  using present ptr opc no align distinct
  by (intro Select_globalGet [OF wf present])
     (simp_all add: Select_def isMachineOpcode_def Select_INTRINSIC_WO_CHAIN_def
        getMachineNode_def getTargetExternalSymbol_def InsertNode_def Let_def NextRef_append
        globalGet_def)

lemma Select_wasm_tls_base:
  assumes wf: "wellFormed rank DAG"
    and present: "getNode DAG N = Some Node"
    and ptr: "PtrVT = i32"
    and opc: "getOpcode Node = Generic ISD_INTRINSIC_W_CHAIN"
    and no: "getConstantOperand DAG Node 1 = Inr C"
    and base: "ucast C = wasm_tls_base Intr"
  shows "\<exists>InChain DAG'. getOperand Node 0 = Some InChain \<and>
           Select SelectCode Intr ST PtrVT N DAG = (Inr (), DAG') \<and>
           replaced DAG N (globalGet DAG ''__tls_base'' [i32, Other] [InChain])
             (Suc (NextRef (AllNodes DAG))) DAG'"
proof -
  from no have len: "1 < length (OperandList Node)"
    by (rule getConstantOperand_length)
  then have chain: "getOperand Node 0 = Some (OperandList Node ! 0)"
    by (rule first_operand)
  from len have "OperandList Node ! 0 \<in> set (OperandList Node)"
    by (rule first_operand)
  with wf present have "fst (OperandList Node ! 0) \<noteq> N"
    by (rule operand_not_self)
  then have "\<exists>DAG'. Select SelectCode Intr ST PtrVT N DAG = (Inr (), DAG') \<and>
           replaced DAG N (globalGet DAG ''__tls_base'' [i32, Other] [OperandList Node ! 0])
             (Suc (NextRef (AllNodes DAG))) DAG'"
    using present ptr opc no base chain
    by (intro Select_globalGet [OF wf present])
       (simp_all add: Select_def isMachineOpcode_def Select_INTRINSIC_W_CHAIN_def
          getMachineNode_def getTargetExternalSymbol_def InsertNode_def Let_def NextRef_append
          globalGet_def)
  with chain show ?thesis by blast
qed

text \<open>
  C3, as the code has it. The three intrinsics that ask for the size, the
  alignment and the base pointer of the thread-local block pass no feature
  gate: on every target, with bulk memory or without, selection lowers the
  intrinsic to a read of its global, \<open>__tls_size\<close>, \<open>__tls_align\<close> or
  \<open>__tls_base\<close> (pointers being 32 bits wide, the only width the pass
  runs with). The read of the base pointer keeps the chain of the intrinsic.
\<close>

theorem Select_tls_intrinsics:
  assumes wf: "wellFormed rank DAG"
    and present: "getNode DAG N = Some Node"
    and ptr: "PtrVT = i32"
  shows "(getOpcode Node = Generic ISD_INTRINSIC_WO_CHAIN \<and>
          getConstantOperand DAG Node 0 = Inr C \<and> ucast C = wasm_tls_size Intr \<longrightarrow>
            (\<exists>DAG'. Select SelectCode Intr ST PtrVT N DAG = (Inr (), DAG') \<and>
               replaced DAG N (globalGet DAG ''__tls_size'' [i32] [])
                 (Suc (NextRef (AllNodes DAG))) DAG')) \<and>
         (getOpcode Node = Generic ISD_INTRINSIC_WO_CHAIN \<and>
          getConstantOperand DAG Node 0 = Inr C \<and> ucast C = wasm_tls_align Intr \<and>
          wasm_tls_align Intr \<noteq> wasm_tls_size Intr \<longrightarrow>
            (\<exists>DAG'. Select SelectCode Intr ST PtrVT N DAG = (Inr (), DAG') \<and>
               replaced DAG N (globalGet DAG ''__tls_align'' [i32] [])
                 (Suc (NextRef (AllNodes DAG))) DAG')) \<and>
         (getOpcode Node = Generic ISD_INTRINSIC_W_CHAIN \<and>
          getConstantOperand DAG Node 1 = Inr C \<and> ucast C = wasm_tls_base Intr \<longrightarrow>
            (\<exists>InChain DAG'. getOperand Node 0 = Some InChain \<and>
               Select SelectCode Intr ST PtrVT N DAG = (Inr (), DAG') \<and>
               replaced DAG N (globalGet DAG ''__tls_base'' [i32, Other] [InChain])
                 (Suc (NextRef (AllNodes DAG))) DAG'))"
  using Select_wasm_tls_size [OF wf present ptr]
        Select_wasm_tls_align [OF wf present ptr]
        Select_wasm_tls_base [OF wf present ptr]
  by blast

theorem Select_tls_intrinsics_witness:
  "wellFormed (\<lambda>N. N) (IntrinsicGraph 11) \<and>
   getNode (IntrinsicGraph 11) 1 = Some IntrinsicNode \<and>
   getOpcode IntrinsicNode = Generic ISD_INTRINSIC_WO_CHAIN \<and>
   getConstantOperand (IntrinsicGraph 11) IntrinsicNode 0 = Inr 11 \<and>
   ucast (11 :: 64 word) = wasm_tls_size IntrinsicNumbers \<and>
   (\<exists>DAG'. Select NoPatterns IntrinsicNumbers (Target False False False) i32 1
              (IntrinsicGraph 11) = (Inr (), DAG') \<and>
      replaced (IntrinsicGraph 11) 1 (globalGet (IntrinsicGraph 11) ''__tls_size'' [i32] [])
        (Suc (NextRef (AllNodes (IntrinsicGraph 11)))) DAG') \<and>
   wellFormed (\<lambda>N. N) (IntrinsicGraph 12) \<and>
   getNode (IntrinsicGraph 12) 1 = Some IntrinsicNode \<and>
   getConstantOperand (IntrinsicGraph 12) IntrinsicNode 0 = Inr 12 \<and>
   ucast (12 :: 64 word) = wasm_tls_align IntrinsicNumbers \<and>
   wasm_tls_align IntrinsicNumbers \<noteq> wasm_tls_size IntrinsicNumbers \<and>
   (\<exists>DAG'. Select NoPatterns IntrinsicNumbers (Target False False False) i32 1
              (IntrinsicGraph 12) = (Inr (), DAG') \<and>
      replaced (IntrinsicGraph 12) 1 (globalGet (IntrinsicGraph 12) ''__tls_align'' [i32] [])
        (Suc (NextRef (AllNodes (IntrinsicGraph 12)))) DAG') \<and>
   wellFormed (\<lambda>N. N) (ChainedIntrinsicGraph 13) \<and>
   getNode (ChainedIntrinsicGraph 13) 2 = Some ChainedIntrinsicNode \<and>
   getOpcode ChainedIntrinsicNode = Generic ISD_INTRINSIC_W_CHAIN \<and>
   getConstantOperand (ChainedIntrinsicGraph 13) ChainedIntrinsicNode 1 = Inr 13 \<and>
   ucast (13 :: 64 word) = wasm_tls_base IntrinsicNumbers \<and>
   (\<exists>InChain DAG'. getOperand ChainedIntrinsicNode 0 = Some InChain \<and>
      Select NoPatterns IntrinsicNumbers (Target False False False) i32 2
        (ChainedIntrinsicGraph 13) = (Inr (), DAG') \<and>
      replaced (ChainedIntrinsicGraph 13) 2
        (globalGet (ChainedIntrinsicGraph 13) ''__tls_base'' [i32, Other] [InChain])
        (Suc (NextRef (AllNodes (ChainedIntrinsicGraph 13)))) DAG')"
proof -
  have size: "ucast (11 :: 64 word) = wasm_tls_size IntrinsicNumbers"
    and align: "ucast (12 :: 64 word) = wasm_tls_align IntrinsicNumbers"
    and base: "ucast (13 :: 64 word) = wasm_tls_base IntrinsicNumbers"
    and distinct: "wasm_tls_align IntrinsicNumbers \<noteq> wasm_tls_size IntrinsicNumbers"
    by (simp_all add: IntrinsicNumbers_def)
  note s = Select_tls_intrinsics
             [OF wellFormed_IntrinsicGraph getNode_IntrinsicGraph refl,
              of 11 11 IntrinsicNumbers NoPatterns "Target False False False"]
  note a = Select_tls_intrinsics
             [OF wellFormed_IntrinsicGraph getNode_IntrinsicGraph refl,
              of 12 12 IntrinsicNumbers NoPatterns "Target False False False"]
  note b = Select_tls_intrinsics
             [OF wellFormed_ChainedIntrinsicGraph getNode_ChainedIntrinsicGraph refl,
              of 13 13 IntrinsicNumbers NoPatterns "Target False False False"]
  have "\<exists>DAG'. Select NoPatterns IntrinsicNumbers (Target False False False) i32 1
              (IntrinsicGraph 11) = (Inr (), DAG') \<and>
      replaced (IntrinsicGraph 11) 1 (globalGet (IntrinsicGraph 11) ''__tls_size'' [i32] [])
        (Suc (NextRef (AllNodes (IntrinsicGraph 11)))) DAG'"
    using s getOpcode_IntrinsicNode getConstantOperand_IntrinsicGraph size by blast
  moreover
  have "\<exists>DAG'. Select NoPatterns IntrinsicNumbers (Target False False False) i32 1
              (IntrinsicGraph 12) = (Inr (), DAG') \<and>
      replaced (IntrinsicGraph 12) 1 (globalGet (IntrinsicGraph 12) ''__tls_align'' [i32] [])
        (Suc (NextRef (AllNodes (IntrinsicGraph 12)))) DAG'"
    using a getOpcode_IntrinsicNode getConstantOperand_IntrinsicGraph align distinct by blast
  moreover
  have "\<exists>InChain DAG'. getOperand ChainedIntrinsicNode 0 = Some InChain \<and>
      Select NoPatterns IntrinsicNumbers (Target False False False) i32 2
        (ChainedIntrinsicGraph 13) = (Inr (), DAG') \<and>
      replaced (ChainedIntrinsicGraph 13) 2
        (globalGet (ChainedIntrinsicGraph 13) ''__tls_base'' [i32, Other] [InChain])
        (Suc (NextRef (AllNodes (ChainedIntrinsicGraph 13)))) DAG'"
    using b getOpcode_ChainedIntrinsicNode getConstantOperand_ChainedIntrinsicGraph base by blast
  ultimately show ?thesis
    using wellFormed_IntrinsicGraph getNode_IntrinsicGraph getOpcode_IntrinsicNode
      getConstantOperand_IntrinsicGraph wellFormed_ChainedIntrinsicGraph
      getNode_ChainedIntrinsicGraph getOpcode_ChainedIntrinsicNode
      getConstantOperand_ChainedIntrinsicGraph size align base distinct
    by blast
qed

text \<open>
  On a target without bulk memory the size intrinsic is lowered all the
  same, and selection returns normally: there is no gate and no fatal error.
\<close>

theorem Select_tls_size_passes_no_gate:
  "getNode (IntrinsicGraph 11) 1 = Some IntrinsicNode \<and>
   getOpcode IntrinsicNode = Generic ISD_INTRINSIC_WO_CHAIN \<and>
   getConstantOperand (IntrinsicGraph 11) IntrinsicNode 0 = Inr 11 \<and>
   ucast (11 :: 64 word) = wasm_tls_size IntrinsicNumbers \<and>
   \<not> hasBulkMemory (Target False False False) \<and>
   Select NoPatterns IntrinsicNumbers (Target False False False) i32 1 (IntrinsicGraph 11) =
     (Inr (),
      \<lparr>AllNodes =
         [(2, newSDNode (Generic (ISD_other 3)) [i32] [(4, 0)]),
          (3, (newSDNode (Generic ISD_TargetExternalSymbol) [i32] [])
                \<lparr>getSymbol := ''__tls_size''\<rparr>),
          (4, newSDNode (Machine WebAssembly_GLOBAL_GET_I32) [i32] [(3, 0)])]\<rparr>)"
  by (simp add: Select_def isMachineOpcode_def Select_INTRINSIC_WO_CHAIN_def Target_def
        getConstantOperand_def getOperand_def isa_ConstantSDNode_def
        IntrinsicNumbers_def IntrinsicGraph_def IntrinsicNode_def getNode_def
        newSDNode_def getMachineNode_def getTargetExternalSymbol_def InsertNode_def
        RemoveDeadNode_def ReplaceNode_def ReplaceAllUsesWith_def replaceUses_def replaceUse_def
        use_empty_def DeleteNode_def Let_def)

text \<open>
  C4. For every thread-local-address node compiled for a target without
  bulk memory, selection stops with the fatal error "cannot use
  thread-local storage without bulk memory" before it builds anything: the
  graph at that moment is the graph it was given, with no machine node
  added and the node still in place.
\<close>

theorem Select_GlobalTLSAddress_without_bulk_memory:
  assumes "getNode DAG N = Some GA"
    and "getOpcode GA = Generic ISD_GlobalTLSAddress"
    and "\<not> hasBulkMemory ST"
  shows "Select SelectCode Intr ST PtrVT N DAG =
           (Inl (report_fatal_error ''cannot use thread-local storage without bulk memory''), DAG)"
  using assms by (simp add: Select_def isMachineOpcode_def Select_GlobalTLSAddress_def)

theorem Select_GlobalTLSAddress_without_bulk_memory_witness:
  "getNode (TLSGraph LocalExecTLSModel) 0 = Some (TLSNode LocalExecTLSModel) \<and>
   getOpcode (TLSNode LocalExecTLSModel) = Generic ISD_GlobalTLSAddress \<and>
   \<not> hasBulkMemory (Target True False True) \<and>
   Select NoPatterns IntrinsicNumbers (Target True False True) i32 0 (TLSGraph LocalExecTLSModel) =
     (Inl (report_fatal_error ''cannot use thread-local storage without bulk memory''),
      TLSGraph LocalExecTLSModel)"
proof -
  have bulk: "\<not> hasBulkMemory (Target True False True)"
    by (simp add: hasBulkMemory_Target)
  from Select_GlobalTLSAddress_without_bulk_memory [OF getNode_TLSGraph getOpcode_TLSNode bulk]
       getNode_TLSGraph getOpcode_TLSNode bulk
  show ?thesis by blast
qed

text \<open>
  C5, as the code has it. For every thread-local-address node whose
  variable asks for a storage model other than local-exec, on a target that
  has bulk memory and whose OS is not Emscripten, selection stops with a
  fatal error whose message ends in the name of the variable, and the graph
  at that moment is the graph it was given: nothing has replaced the node.
\<close>

theorem Select_GlobalTLSAddress_unsupported_model:
  assumes "getNode DAG N = Some GA"
    and "getOpcode GA = Generic ISD_GlobalTLSAddress"
    and "hasBulkMemory ST"
    and "getThreadLocalMode (getGlobal GA) \<noteq> LocalExecTLSModel"
    and "\<not> isOSEmscripten ST"
  shows "Select SelectCode Intr ST PtrVT N DAG =
           (Inl (report_fatal_error
                   (''only -ftls-model=local-exec is supported for now on non-Emscripten OSes: variable ''
                    @ getName (getGlobal GA))), DAG)"
  using assms by (simp add: Select_def isMachineOpcode_def Select_GlobalTLSAddress_def)

theorem Select_GlobalTLSAddress_unsupported_model_witness:
  "getNode (TLSGraph GeneralDynamicTLSModel) 0 = Some (TLSNode GeneralDynamicTLSModel) \<and>
   getOpcode (TLSNode GeneralDynamicTLSModel) = Generic ISD_GlobalTLSAddress \<and>
   hasBulkMemory (Target False True False) \<and>
   getThreadLocalMode (getGlobal (TLSNode GeneralDynamicTLSModel)) \<noteq> LocalExecTLSModel \<and>
   \<not> isOSEmscripten (Target False True False) \<and>
   Select NoPatterns IntrinsicNumbers (Target False True False) i32 0
       (TLSGraph GeneralDynamicTLSModel) =
     (Inl (report_fatal_error
             ''only -ftls-model=local-exec is supported for now on non-Emscripten OSes: variable x''),
      TLSGraph GeneralDynamicTLSModel)"
proof -
  have bulk: "hasBulkMemory (Target False True False)"
    and os: "\<not> isOSEmscripten (Target False True False)"
    by (simp_all add: hasBulkMemory_Target isOSEmscripten_Target)
  have model: "getThreadLocalMode (getGlobal (TLSNode GeneralDynamicTLSModel)) \<noteq> LocalExecTLSModel"
    by (simp add: getGlobal_TLSNode)
  from Select_GlobalTLSAddress_unsupported_model
         [OF getNode_TLSGraph getOpcode_TLSNode bulk model os,
          of NoPatterns IntrinsicNumbers i32]
       getNode_TLSGraph getOpcode_TLSNode bulk model os
  show ?thesis by (simp add: getGlobal_TLSNode)
qed

text \<open>
  Without bulk memory the first test of the case decides: for the variable
  \<open>x\<close> with the general-dynamic model, on an OS other than Emscripten, the
  message is the one about bulk memory, in which \<open>x\<close> does not occur.
\<close>

theorem Select_GlobalTLSAddress_bulk_memory_first:
  "getNode (TLSGraph GeneralDynamicTLSModel) 0 = Some (TLSNode GeneralDynamicTLSModel) \<and>
   getOpcode (TLSNode GeneralDynamicTLSModel) = Generic ISD_GlobalTLSAddress \<and>
   getThreadLocalMode (getGlobal (TLSNode GeneralDynamicTLSModel)) \<noteq> LocalExecTLSModel \<and>
   \<not> isOSEmscripten (Target False False False) \<and>
   getName (getGlobal (TLSNode GeneralDynamicTLSModel)) = ''x'' \<and>
   Select NoPatterns IntrinsicNumbers (Target False False False) i32 0
       (TLSGraph GeneralDynamicTLSModel) =
     (Inl (report_fatal_error ''cannot use thread-local storage without bulk memory''),
      TLSGraph GeneralDynamicTLSModel) \<and>
   CHR ''x'' \<notin> set ''cannot use thread-local storage without bulk memory''"
  by (simp add: Select_def isMachineOpcode_def Select_GlobalTLSAddress_def getNode_TLSGraph
        getOpcode_TLSNode getGlobal_TLSNode hasBulkMemory_Target isOSEmscripten_Target)

text \<open>
  C6. For every thread-local-address node on a supported configuration
  (bulk memory, and either the local-exec model or Emscripten; pointers are
  32 bits wide, the only width the pass runs with), selection replaces the
  node by a sequence of three machine nodes: a \<open>GLOBAL_GET_I32\<close> that reads
  the symbol \<open>__tls_base\<close>, a \<open>CONST_I32\<close> on the target global address of
  the variable at its offset, and an \<open>ADD_I32\<close> of the two. These three and
  their two leaves are all that selection adds; the node is gone, and all
  its users use the result of the addition instead.
\<close>

theorem Select_GlobalTLSAddress_lowering:
  assumes wf: "wellFormed rank DAG"
    and present: "getNode DAG N = Some GA"
    and opc: "getOpcode GA = Generic ISD_GlobalTLSAddress"
    and bulk: "hasBulkMemory ST"
    and model: "getThreadLocalMode (getGlobal GA) = LocalExecTLSModel \<or> isOSEmscripten ST"
    and ptr: "PtrVT = i32"
  shows "\<exists>DAG'.
           Select SelectCode Intr ST PtrVT N DAG = (Inr (), DAG') \<and>
           replaced DAG N
             [(NextRef (AllNodes DAG),
               (newSDNode (Generic ISD_TargetExternalSymbol) [i32] [])
                 \<lparr>getSymbol := ''__tls_base''\<rparr>),
              (NextRef (AllNodes DAG) + 1,
               (newSDNode (Generic ISD_TargetGlobalAddress) [i32] [])
                 \<lparr>getGlobal := getGlobal GA, getOffset := getOffset GA, getTargetFlags := 0\<rparr>),
              (NextRef (AllNodes DAG) + 2,
               newSDNode (Machine WebAssembly_GLOBAL_GET_I32) [i32] [(NextRef (AllNodes DAG), 0)]),
              (NextRef (AllNodes DAG) + 3,
               newSDNode (Machine WebAssembly_CONST_I32) [i32] [(NextRef (AllNodes DAG) + 1, 0)]),
              (NextRef (AllNodes DAG) + 4,
               newSDNode (Machine WebAssembly_ADD_I32) [i32]
                 [(NextRef (AllNodes DAG) + 2, 0), (NextRef (AllNodes DAG) + 3, 0)])]
             (NextRef (AllNodes DAG) + 4) DAG'"
proof -
  define F where "F = NextRef (AllNodes DAG)"
  define New where
    "New = [(F, (newSDNode (Generic ISD_TargetExternalSymbol) [i32] [])
                  \<lparr>getSymbol := ''__tls_base''\<rparr>),
            (F + 1, (newSDNode (Generic ISD_TargetGlobalAddress) [i32] [])
                      \<lparr>getGlobal := getGlobal GA, getOffset := getOffset GA, getTargetFlags := 0\<rparr>),
            (F + 2, newSDNode (Machine WebAssembly_GLOBAL_GET_I32) [i32] [(F, 0)]),
            (F + 3, newSDNode (Machine WebAssembly_CONST_I32) [i32] [(F + 1, 0)]),
            (F + 4, newSDNode (Machine WebAssembly_ADD_I32) [i32] [(F + 2, 0), (F + 3, 0)])]"
  define DAG5 where "DAG5 = DAG\<lparr>AllNodes := AllNodes DAG @ New\<rparr>"
  from present have "N < F"
    unfolding F_def by (rule present_less_NextRef)
  then have unused: "\<forall>(K, Nd) \<in> set New. \<forall>V \<in> set (OperandList Nd). fst V \<noteq> N"
    by (simp add: New_def newSDNode_def)
  have sel: "Select SelectCode Intr ST PtrVT N DAG = (Inr (), ReplaceNode N (F + 4) DAG5)"
    using present opc bulk model ptr
    by (auto simp: Select_def isMachineOpcode_def Select_GlobalTLSAddress_def getMachineNode_def
          getTargetExternalSymbol_def getTargetGlobalAddress_def InsertNode_def Let_def
          DAG5_def New_def F_def NextRef_append eval_nat_numeral)
  have app: "AllNodes DAG5 = AllNodes DAG @ New"
    by (simp add: DAG5_def)
  have fresh: "\<forall>(K, Nd) \<in> set New. NextRef (AllNodes DAG) \<le> K"
    by (simp add: New_def F_def)
  have dist: "distinct (map fst New)"
    by (simp add: New_def)
  have T: "NextRef (AllNodes DAG) \<le> F + 4"
    by (simp add: F_def)
  from ReplaceNode_replaced(1) [OF wf present app fresh dist unused T] sel show ?thesis
    unfolding New_def F_def by simp
qed

theorem Select_GlobalTLSAddress_lowering_witness:
  "wellFormed (\<lambda>N. N) (TLSGraph LocalExecTLSModel) \<and>
   getNode (TLSGraph LocalExecTLSModel) 0 = Some (TLSNode LocalExecTLSModel) \<and>
   getOpcode (TLSNode LocalExecTLSModel) = Generic ISD_GlobalTLSAddress \<and>
   hasBulkMemory (Target False True False) \<and>
   getThreadLocalMode (getGlobal (TLSNode LocalExecTLSModel)) = LocalExecTLSModel \<and>
   (\<exists>DAG'.
      Select NoPatterns IntrinsicNumbers (Target False True False) i32 0
        (TLSGraph LocalExecTLSModel) = (Inr (), DAG') \<and>
      replaced (TLSGraph LocalExecTLSModel) 0
        [(2, (newSDNode (Generic ISD_TargetExternalSymbol) [i32] [])
               \<lparr>getSymbol := ''__tls_base''\<rparr>),
         (3, (newSDNode (Generic ISD_TargetGlobalAddress) [i32] [])
               \<lparr>getGlobal := \<lparr>getName = ''x'', getThreadLocalMode = LocalExecTLSModel\<rparr>,
                  getOffset := 8, getTargetFlags := 0\<rparr>),
         (4, newSDNode (Machine WebAssembly_GLOBAL_GET_I32) [i32] [(2, 0)]),
         (5, newSDNode (Machine WebAssembly_CONST_I32) [i32] [(3, 0)]),
         (6, newSDNode (Machine WebAssembly_ADD_I32) [i32] [(4, 0), (5, 0)])]
        6 DAG')"
proof -
  have bulk: "hasBulkMemory (Target False True False)"
    by (simp add: hasBulkMemory_Target)
  have model: "getThreadLocalMode (getGlobal (TLSNode LocalExecTLSModel)) = LocalExecTLSModel"
    by (simp add: getGlobal_TLSNode)
  have "NextRef (AllNodes (TLSGraph LocalExecTLSModel)) = 2"
    by (simp add: TLSGraph_def)
  moreover have "getOffset (TLSNode LocalExecTLSModel) = 8"
    by (simp add: TLSNode_def newSDNode_def)
  ultimately show ?thesis
    using Select_GlobalTLSAddress_lowering
            [OF wellFormed_TLSGraph getNode_TLSGraph getOpcode_TLSNode bulk disjI1 [OF model] refl,
             of NoPatterns IntrinsicNumbers]
          wellFormed_TLSGraph getNode_TLSGraph getOpcode_TLSNode bulk model
    by (simp add: getGlobal_TLSNode)
qed

section \<open>The constraint binder\<close>

text \<open>
  C7. With the constraint code \<open>i\<close> or \<open>m\<close> the binder succeeds (it returns
  \<open>false\<close>) and emits exactly the operand it was given, unchanged: the
  operand is appended to \<open>OutOps\<close>, so from the empty list the caller gets
  the one-element list of that operand. With any other code it reports
  failure (it returns \<open>true\<close>) and leaves \<open>OutOps\<close> as it was; it is a total
  function, so no code makes it stop the compilation.
\<close>

theorem SelectInlineAsmMemoryOperand_binds:
  "(C = Constraint_i \<or> C = Constraint_m \<longrightarrow>
      SelectInlineAsmMemoryOperand Op C OutOps = (False, OutOps @ [Op]) \<and>
      SelectInlineAsmMemoryOperand Op C [] = (False, [Op])) \<and>
   (C \<noteq> Constraint_i \<and> C \<noteq> Constraint_m \<longrightarrow>
      SelectInlineAsmMemoryOperand Op C OutOps = (True, OutOps))"
  by (cases C) simp_all

theorem SelectInlineAsmMemoryOperand_binds_witness:
  "SelectInlineAsmMemoryOperand (3, 0) Constraint_m [] = (False, [(3, 0)]) \<and>
   SelectInlineAsmMemoryOperand (3, 0) Constraint_i [(1, 0)] = (False, [(1, 0), (3, 0)]) \<and>
   SelectInlineAsmMemoryOperand (3, 0) (Constraint_other 7) [(1, 0)] = (True, [(1, 0)])"
  using SelectInlineAsmMemoryOperand_binds [of Constraint_m "(3, 0)" "[]"]
        SelectInlineAsmMemoryOperand_binds [of Constraint_i "(3, 0)" "[(1, 0)]"]
        SelectInlineAsmMemoryOperand_binds [of "Constraint_other 7" "(3, 0)" "[(1, 0)]"]
  by simp

section \<open>Nodes that are machine-level already\<close>

lemma withoutNodeIds_setNodeId: "withoutNodeIds (setNodeId N NewId DAG) = withoutNodeIds DAG"
  unfolding withoutNodeIds_def setNodeId_def by (induction "AllNodes DAG" arbitrary: DAG) auto

lemma allMachine_setNodeId: "allMachine DAG \<Longrightarrow> allMachine (setNodeId N NewId DAG)"
  unfolding allMachine_def setNodeId_def isMachineOpcode_def by (auto split: if_splits)

lemma Select_machine:
  "getNode DAG N = Some Node \<Longrightarrow> isMachineOpcode Node \<Longrightarrow>
   Select SelectCode Intr ST PtrVT N DAG = (Inr (), setNodeId N (- 1) DAG)"
  by (simp add: Select_def)

lemma allMachine_getNode:
  "allMachine DAG \<Longrightarrow> getNode DAG N = Some Node \<Longrightarrow> isMachineOpcode Node"
  unfolding allMachine_def getNode_def by (auto dest: map_of_SomeD)

lemma DoInstructionSelection_allMachine:
  "allMachine DAG \<Longrightarrow>
   fst (DoInstructionSelection (Select SelectCode Intr ST PtrVT) Ns DAG) = Inr () \<and>
   withoutNodeIds (snd (DoInstructionSelection (Select SelectCode Intr ST PtrVT) Ns DAG)) =
     withoutNodeIds DAG"
proof (induction Ns arbitrary: DAG)
  case Nil
  show ?case by simp
next
  case (Cons N Ns)
  show ?case
  proof (cases "getNode DAG N")
    case None
    with Cons show ?thesis by simp
  next
    case (Some Node)
    with Cons.prems have "isMachineOpcode Node"
      by (intro allMachine_getNode)
    with Some have sel: "Select SelectCode Intr ST PtrVT N DAG = (Inr (), setNodeId N (- 1) DAG)"
      by (rule Select_machine)
    from Cons.prems have "allMachine (setNodeId N (- 1) DAG)"
      by (rule allMachine_setNodeId)
    from Cons.IH [OF this] Some sel show ?thesis
      by (simp add: withoutNodeIds_setNodeId)
  qed
qed

text \<open>
  C9. Invoked on a node that carries a machine opcode, the selector returns
  at once: it succeeds, replaces nothing, and leaves the nodes of the graph
  and their operands as they were (all it writes is the node id of that
  node). Hence the driver, run in any order over a graph whose nodes are
  all machine-level, succeeds and leaves the nodes and their operands as
  they were.
\<close>

theorem Select_machine_node_is_left_alone:
  "(getNode DAG N = Some Node \<and> isMachineOpcode Node \<longrightarrow>
      fst (Select SelectCode Intr ST PtrVT N DAG) = Inr () \<and>
      withoutNodeIds (snd (Select SelectCode Intr ST PtrVT N DAG)) = withoutNodeIds DAG) \<and>
   (allMachine DAG \<longrightarrow>
      fst (DoInstructionSelection (Select SelectCode Intr ST PtrVT) Order DAG) = Inr () \<and>
      withoutNodeIds (snd (DoInstructionSelection (Select SelectCode Intr ST PtrVT) Order DAG)) =
        withoutNodeIds DAG)"
  by (simp add: Select_machine withoutNodeIds_setNodeId DoInstructionSelection_allMachine)

theorem Select_machine_node_is_left_alone_witness:
  "getNode MachineGraph 1 =
     Some (newSDNode (Machine WebAssembly_ADD_I32) [i32] [(0, 0), (0, 0)]) \<and>
   isMachineOpcode (newSDNode (Machine WebAssembly_ADD_I32) [i32] [(0, 0), (0, 0)]) \<and>
   fst (Select NoPatterns IntrinsicNumbers (Target False False False) i32 1 MachineGraph) =
     Inr () \<and>
   withoutNodeIds
     (snd (Select NoPatterns IntrinsicNumbers (Target False False False) i32 1 MachineGraph)) =
     withoutNodeIds MachineGraph \<and>
   allMachine MachineGraph \<and>
   fst (DoInstructionSelection
          (Select NoPatterns IntrinsicNumbers (Target False False False) i32) [1, 0]
          MachineGraph) = Inr () \<and>
   withoutNodeIds
     (snd (DoInstructionSelection
             (Select NoPatterns IntrinsicNumbers (Target False False False) i32) [1, 0]
             MachineGraph)) =
     withoutNodeIds MachineGraph"
proof -
  have machine: "isMachineOpcode (newSDNode (Machine WebAssembly_ADD_I32) [i32] [(0, 0), (0, 0)])"
    by (simp add: isMachineOpcode_def newSDNode_def)
  from Select_machine_node_is_left_alone
         [of MachineGraph 1 "newSDNode (Machine WebAssembly_ADD_I32) [i32] [(0, 0), (0, 0)]"
             NoPatterns IntrinsicNumbers "Target False False False" i32 "[1, 0]"]
       getNode_MachineGraph machine allMachine_MachineGraph
  show ?thesis by blast
qed

end
